theory Spec2Isabelle
  imports
    Complex_Main
    "HOL-Library.Sublist"
    "HOL-Library.Char_ord"
    "HOL-Library.List_Lexorder"
begin

section \<open>JavaScript values used by the class router\<close>

text \<open>
  The handlers of \<open>classRouter\<close> are TypeScript running on JavaScript values.  The
  conventions of this development:
  \<^item> a JavaScript \<open>number\<close> is a \<^typ>\<open>real\<close>; counters that only start at \<open>0\<close> and grow by
    \<open>1\<close> are \<^typ>\<open>nat\<close> and are converted where they are divided.  Rounding of IEEE doubles is
    not part of the model; none of the divisions below has a zero divisor.
  \<^item> a value that may be \<open>null\<close> or \<open>undefined\<close> is an \<open>option\<close>;
  \<^item> an object used as a dictionary (\<open>Record<string, V>\<close>) is the list of its own properties
    in insertion order.  The keys of the attendance dictionary are calendar days
    (\<open>YYYY-MM-DD\<close>), which are neither array indices nor names of inherited properties,
    so \<open>Object.entries\<close> enumerates them in insertion order and a missing key reads as
    \<open>undefined\<close>.  The keys of the subject dictionary are arbitrary names; for them the
    properties inherited from \<open>Object.prototype\<close> and the enumeration order of array
    indices are modelled (\<open>plain_get\<close>, \<open>own_property_order\<close>);
  \<^item> a \<open>Date\<close> is held as the text its \<open>toISOString()\<close> yields
    (\<open>YYYY-MM-DDTHH:mm:ss.sssZ\<close>).
\<close>

type_synonym 'v js_dict = "(string \<times> 'v) list"

text \<open>\<open>acc[k]\<close>, read.\<close>

definition dict_get :: "'v js_dict \<Rightarrow> string \<Rightarrow> 'v option" where
  "dict_get acc k = map_of acc k"

text \<open>\<open>acc[k] = v\<close> for a key the object does not own yet: the property is added last.\<close>

definition dict_add :: "string \<Rightarrow> 'v \<Rightarrow> 'v js_dict \<Rightarrow> 'v js_dict" where
  "dict_add k v acc = acc @ [(k, v)]"

text \<open>An in-place change of the object stored under \<open>k\<close> (\<open>acc[k].f += ...\<close>).\<close>

fun dict_modify :: "string \<Rightarrow> ('v \<Rightarrow> 'v) \<Rightarrow> 'v js_dict \<Rightarrow> 'v js_dict" where
  "dict_modify k f [] = []"
| "dict_modify k f ((k', v) # kvs) =
     (if k' = k then (k', f v) # kvs else (k', v) # dict_modify k f kvs)"

text \<open>\<open>xs.reduce((acc, x) => acc + f(x), 0)\<close>.\<close>

definition reduce_sum :: "('a \<Rightarrow> real) \<Rightarrow> 'a list \<Rightarrow> real" where
  "reduce_sum f xs = foldl (\<lambda>acc x. acc + f x) 0 xs"

text \<open>Truthiness of a string: every string but the empty one.\<close>

definition truthy :: "string \<Rightarrow> bool" where
  "truthy s = (s \<noteq> [])"

text \<open>
  The names of the properties that an object created by \<open>{}\<close> inherits from
  \<open>Object.prototype\<close>.  Each of them reads as a function or an object, which is truthy.
\<close>

definition objectPrototypeKeys :: "string list" where
  "objectPrototypeKeys =
     [''constructor'', ''__defineGetter__'', ''__defineSetter__'', ''hasOwnProperty'',
      ''__lookupGetter__'', ''__lookupSetter__'', ''isPrototypeOf'',
      ''propertyIsEnumerable'', ''toString'', ''valueOf'', ''__proto__'',
      ''toLocaleString'']"

text \<open>
  \<open>acc[k]\<close> on an object created by \<open>{}\<close>: an own property, else an inherited one, else
  \<open>undefined\<close>.
\<close>

datatype 'v property = Undefined | Own 'v | Inherited

definition plain_get :: "'v js_dict \<Rightarrow> string \<Rightarrow> 'v property" where
  "plain_get acc k =
     (case map_of acc k of
        Some v \<Rightarrow> Own v
      | None \<Rightarrow> if k \<in> set objectPrototypeKeys then Inherited else Undefined)"

text \<open>
  An array index is the decimal numeral, without leading zeros, of an integer from 0 to
  \<open>2^32 - 2\<close>.  \<open>Object.values\<close> and \<open>Object.entries\<close> enumerate the own properties whose
  keys are array indices first, in ascending numeric order, and then the other string
  keys in insertion order.
\<close>

definition is_digit :: "char \<Rightarrow> bool" where
  "is_digit c = (CHR ''0'' \<le> c \<and> c \<le> CHR ''9'')"

definition decimal_value :: "string \<Rightarrow> nat" where
  "decimal_value s = foldl (\<lambda>n c. 10 * n + (of_char c - 48)) 0 s"

definition is_array_index :: "string \<Rightarrow> bool" where
  "is_array_index s =
     (s \<noteq> [] \<and> list_all is_digit s \<and> (hd s \<noteq> CHR ''0'' \<or> s = ''0'') \<and>
      decimal_value s < 4294967295)"

definition own_property_order :: "'v js_dict \<Rightarrow> 'v js_dict" where
  "own_property_order ps =
     sort_key (\<lambda>p. decimal_value (fst p)) (filter (\<lambda>p. is_array_index (fst p)) ps) @
     filter (\<lambda>p. \<not> is_array_index (fst p)) ps"

text \<open>\<open>d.toISOString().split('T')[0]\<close>: the text before the first \<open>T\<close>.\<close>

definition isoDay :: "string \<Rightarrow> string" where
  "isoDay s = takeWhile (\<lambda>c. c \<noteq> CHR ''T'') s"


section \<open>\<open>class.getAttendanceStats\<close>\<close>

text \<open>
  The handler reads the attendance records of the class in the date range and reduces
  them.  \<open>getAttendanceStats\<close> below is the handler after the \<open>await\<close>: a function of the
  records the store returned.  The key of a record is the calendar day of its date in
  UTC, as \<open>toISOString\<close> prints it.
\<close>

record attendance =
  att_date :: string
  att_status :: string

record dayStats =
  present :: nat
  total :: nat

record trend =
  date :: string
  attendanceRate :: real

record attendanceStats =
  trends :: "trend list"
  averageAttendance :: real

definition attendanceByDate_step :: "dayStats js_dict \<Rightarrow> attendance \<Rightarrow> dayStats js_dict" where
  "attendanceByDate_step acc r =
     (let d = isoDay (att_date r);
          acc1 = (if dict_get acc d = None
                  then dict_add d \<lparr>present = 0, total = 0\<rparr> acc else acc);
          acc2 = dict_modify d (\<lambda>s. s\<lparr>total := total s + 1\<rparr>) acc1
      in if att_status r = ''PRESENT''
         then dict_modify d (\<lambda>s. s\<lparr>present := present s + 1\<rparr>) acc2
         else acc2)"

definition attendanceByDate :: "attendance list \<Rightarrow> dayStats js_dict" where
  "attendanceByDate recs = foldl attendanceByDate_step [] recs"

definition getAttendanceStats :: "attendance list \<Rightarrow> attendanceStats" where
  "getAttendanceStats recs =
     (let ts = map (\<lambda>(d, stats).
                 \<lparr>date = d, attendanceRate = real (present stats) / real (total stats) * 100\<rparr>)
               (attendanceByDate recs)
      in \<lparr>trends = ts,
          averageAttendance =
            (if length ts > 0 then reduce_sum attendanceRate ts / real (length ts) else 0)\<rparr>)"

text \<open>
  What the claims speak of, stated on the records themselves: the calendar days that
  occur, the number of records of a day, the number of \<open>PRESENT\<close> records of a day, the
  rate of a day, and the ratio over all records.
\<close>

definition recordDays :: "attendance list \<Rightarrow> string set" where
  "recordDays recs = (\<lambda>r. isoDay (att_date r)) ` set recs"

definition dayTotal :: "attendance list \<Rightarrow> string \<Rightarrow> nat" where
  "dayTotal recs d = length (filter (\<lambda>r. isoDay (att_date r) = d) recs)"

definition dayPresent :: "attendance list \<Rightarrow> string \<Rightarrow> nat" where
  "dayPresent recs d =
     length (filter (\<lambda>r. isoDay (att_date r) = d \<and> att_status r = ''PRESENT'') recs)"

definition dayRate :: "attendance list \<Rightarrow> string \<Rightarrow> real" where
  "dayRate recs d = real (dayPresent recs d) / real (dayTotal recs d) * 100"

definition globalRate :: "attendance list \<Rightarrow> real" where
  "globalRate recs =
     real (length (filter (\<lambda>r. att_status r = ''PRESENT'') recs)) / real (length recs) * 100"

definition statsOf :: "attendance list \<Rightarrow> string \<Rightarrow> dayStats" where
  "statsOf recs d = \<lparr>present = dayPresent recs d, total = dayTotal recs d\<rparr>"

definition statsPlus :: "dayStats \<Rightarrow> attendance list \<Rightarrow> string \<Rightarrow> dayStats" where
  "statsPlus s recs d =
     \<lparr>present = present s + dayPresent recs d, total = total s + dayTotal recs d\<rparr>"


text \<open>
  Two record sets used below: one day with three \<open>PRESENT\<close> records and one
  \<open>ABSENT\<close> record, and two days of one and three records.
\<close>

definition threePresentOneAbsent :: "attendance list" where
  "threePresentOneAbsent =
     [\<lparr>att_date = ''2024-03-04T08:00:00.000Z'', att_status = ''PRESENT''\<rparr>,
      \<lparr>att_date = ''2024-03-04T08:00:00.000Z'', att_status = ''ABSENT''\<rparr>,
      \<lparr>att_date = ''2024-03-04T08:05:00.000Z'', att_status = ''PRESENT''\<rparr>,
      \<lparr>att_date = ''2024-03-04T09:30:00.000Z'', att_status = ''PRESENT''\<rparr>]"

definition unevenDays :: "attendance list" where
  "unevenDays =
     [\<lparr>att_date = ''2024-03-04T08:00:00.000Z'', att_status = ''PRESENT''\<rparr>,
      \<lparr>att_date = ''2024-03-05T08:00:00.000Z'', att_status = ''ABSENT''\<rparr>,
      \<lparr>att_date = ''2024-03-05T08:00:00.000Z'', att_status = ''ABSENT''\<rparr>,
      \<lparr>att_date = ''2024-03-05T08:00:00.000Z'', att_status = ''ABSENT''\<rparr>]"


section \<open>\<open>class.getHistoricalAnalytics\<close>\<close>

text \<open>
  The handler reads the student profiles of the class created in the date range;
  \<open>getHistoricalAnalytics\<close> is the handler after the \<open>await\<close>.  The index expressions
  \<open>historicalStudents[historicalStudents.length - 1]\<close> and \<open>historicalStudents[0]\<close> are only
  evaluated under the guard \<open>length > 1\<close>, where both are in range.
\<close>

record studentProfile =
  sp_id :: string
  sp_createdAt :: string

record historicalAnalytics =
  studentGrowth :: real
  historicalData :: "studentProfile list"

definition getHistoricalAnalytics :: "studentProfile list \<Rightarrow> historicalAnalytics" where
  "getHistoricalAnalytics historicalStudents =
     \<lparr>studentGrowth =
        (if length historicalStudents > 1
         then ((if truthy (sp_id (historicalStudents ! (length historicalStudents - 1)))
                then 1 else 0) -
               (if truthy (sp_id (historicalStudents ! 0)) then 1 else 0)) /
              (if truthy (sp_id (historicalStudents ! 0)) then 1 else 1) * 100
         else 0),
      historicalData = historicalStudents\<rparr>"

text \<open>The presence of an id as a number: 1 if the id is set, 0 otherwise.\<close>

definition idPresence :: "studentProfile \<Rightarrow> real" where
  "idPresence p = (if truthy (sp_id p) then 1 else 0)"

text \<open>
  The growth as the specification words it: the difference of the last and the first
  presence, divided by the first record's presence, times 100.  A JavaScript division by
  zero is \<open>Infinity\<close> or \<open>NaN\<close>; both are \<open>None\<close> here.
\<close>

definition studentGrowth_by_first_presence :: "studentProfile list \<Rightarrow> real option" where
  "studentGrowth_by_first_presence hs =
     (if length hs > 1
      then (if idPresence (hd hs) = 0 then None
            else Some ((idPresence (last hs) - idPresence (hd hs)) / idPresence (hd hs) * 100))
      else Some 0)"

definition firstIdUnset :: "studentProfile list" where
  "firstIdUnset =
     [\<lparr>sp_id = [], sp_createdAt = ''2024-01-10T00:00:00.000Z''\<rparr>,
      \<lparr>sp_id = ''stu_2'', sp_createdAt = ''2024-02-10T00:00:00.000Z''\<rparr>]"

definition bothIdsSet :: "studentProfile list" where
  "bothIdsSet =
     [\<lparr>sp_id = ''stu_1'', sp_createdAt = ''2024-01-10T00:00:00.000Z''\<rparr>,
      \<lparr>sp_id = ''stu_2'', sp_createdAt = ''2024-02-10T00:00:00.000Z''\<rparr>]"


section \<open>\<open>class.getPerformanceTrends\<close>\<close>

text \<open>
  The handler reads the activities of the class with their submissions and subject;
  \<open>getPerformanceTrends\<close> is the handler after the \<open>await\<close>.  Every activity carries its
  subject, of which the handler reads the name.  A submission's marks may be \<open>null\<close>;
  \<open>x || d\<close> on a number yields \<open>d\<close> for \<open>null\<close> and for \<open>0\<close>.
\<close>

record submission =
  obtainedMarks :: "real option"
  totalMarks :: "real option"

record classActivity =
  act_createdAt :: string
  act_subject_name :: string
  act_submissions :: "submission list"

record performancePoint =
  pd_date :: string
  pd_averageScore :: real

record subjectAcc =
  sa_subject :: string
  totalScore :: real
  count :: nat

record subjectPerformance =
  subject :: string
  averageScore :: real

record performanceTrends =
  pt_data :: "performancePoint list"
  pt_subjectWise :: "subjectPerformance list"

definition num_or :: "real option \<Rightarrow> real \<Rightarrow> real" where
  "num_or x d = (case x of None \<Rightarrow> d | Some v \<Rightarrow> if v = 0 then d else v)"

text \<open>\<open>(sub.obtainedMarks || 0) / (sub.totalMarks || 1) * 100\<close>\<close>

definition submissionScore :: "submission \<Rightarrow> real" where
  "submissionScore sub = num_or (obtainedMarks sub) 0 / num_or (totalMarks sub) 1 * 100"

text \<open>The reduction over an activity's submissions, divided by \<open>(submissions.length || 1)\<close>.\<close>

definition activityAverage :: "classActivity \<Rightarrow> real" where
  "activityAverage activity =
     reduce_sum submissionScore (act_submissions activity) /
     (if length (act_submissions activity) = 0 then 1
      else real (length (act_submissions activity)))"

text \<open>
  One step of the reduction.  \<open>!acc[subjectName]\<close> is true only where the lookup yields
  \<open>undefined\<close>; an entry is created then.  Where the name is that of an inherited property,
  no entry is created, and the two updates that follow are made on the inherited value
  (a function, or \<open>Object.prototype\<close> itself), which is no property of \<open>acc\<close>: the own
  properties of \<open>acc\<close> stay as they are.
\<close>

definition subjectWise_step :: "subjectAcc js_dict \<Rightarrow> classActivity \<Rightarrow> subjectAcc js_dict" where
  "subjectWise_step acc activity =
     (let subjectName = act_subject_name activity;
          acc1 = (if plain_get acc subjectName = Undefined
                  then dict_add subjectName
                         \<lparr>sa_subject = subjectName, totalScore = 0, count = 0\<rparr> acc
                  else acc);
          avgScore = activityAverage activity
      in if plain_get acc1 subjectName = Inherited then acc1
         else dict_modify subjectName (\<lambda>e. e\<lparr>count := count e + 1\<rparr>)
                (dict_modify subjectName (\<lambda>e. e\<lparr>totalScore := totalScore e + avgScore\<rparr>)
                   acc1))"

definition subjectWise :: "classActivity list \<Rightarrow> subjectAcc js_dict" where
  "subjectWise activities = foldl subjectWise_step [] activities"

definition getPerformanceTrends :: "classActivity list \<Rightarrow> performanceTrends" where
  "getPerformanceTrends activities =
     \<lparr>pt_data = map (\<lambda>activity.
          \<lparr>pd_date = isoDay (act_createdAt activity),
           pd_averageScore = activityAverage activity\<rparr>) activities,
      pt_subjectWise = map (\<lambda>(k, e).
          \<lparr>subject = sa_subject e, averageScore = totalScore e / real (count e)\<rparr>)
          (own_property_order (subjectWise activities))\<rparr>"

text \<open>
  Stated on the activities themselves, without the handler's definitions: the subjects
  that occur, the activities of a subject, the percentage score of a submission
  (obtained marks, 0 when \<open>null\<close>, divided by total marks, 1 when \<open>null\<close> or 0, times
  100), the mean of an activity (0 without submissions), and the mean over a subject's
  activities of the activities' means.
\<close>

definition activitySubjects :: "classActivity list \<Rightarrow> string set" where
  "activitySubjects activities = act_subject_name ` set activities"

definition subjectActivities :: "classActivity list \<Rightarrow> string \<Rightarrow> classActivity list" where
  "subjectActivities activities s = filter (\<lambda>a. act_subject_name a = s) activities"

definition percentage :: "submission \<Rightarrow> real" where
  "percentage sub =
     (case obtainedMarks sub of None \<Rightarrow> 0 | Some m \<Rightarrow> m) /
     (case totalMarks sub of None \<Rightarrow> 1 | Some t \<Rightarrow> if t = 0 then 1 else t) * 100"

definition activityMean :: "classActivity \<Rightarrow> real" where
  "activityMean a =
     (if act_submissions a = [] then 0
      else sum_list (map percentage (act_submissions a)) / real (length (act_submissions a)))"

definition meanOfActivityMeans :: "classActivity list \<Rightarrow> string \<Rightarrow> real" where
  "meanOfActivityMeans activities s =
     sum_list (map activityMean (subjectActivities activities s)) /
     real (length (subjectActivities activities s))"

text \<open>
  The specification's wording: the mean of the percentage scores over all submissions
  that belong to the subject.
\<close>

definition meanOverSubmissions :: "classActivity list \<Rightarrow> string \<Rightarrow> real" where
  "meanOverSubmissions activities s =
     (let subs = concat (map act_submissions (subjectActivities activities s))
      in sum_list (map percentage subs) / real (length subs))"

text \<open>
  For the proofs: the step on a name that is no inherited property name, and an
  accumulator entry after further activities of its subject.
\<close>

definition subjectWise_step_own :: "subjectAcc js_dict \<Rightarrow> classActivity \<Rightarrow> subjectAcc js_dict" where
  "subjectWise_step_own acc activity =
     (let subjectName = act_subject_name activity;
          acc1 = (if dict_get acc subjectName = None
                  then dict_add subjectName
                         \<lparr>sa_subject = subjectName, totalScore = 0, count = 0\<rparr> acc
                  else acc);
          avgScore = activityAverage activity;
          acc2 = dict_modify subjectName (\<lambda>e. e\<lparr>totalScore := totalScore e + avgScore\<rparr>) acc1
      in dict_modify subjectName (\<lambda>e. e\<lparr>count := count e + 1\<rparr>) acc2)"

definition subjPlus :: "subjectAcc \<Rightarrow> classActivity list \<Rightarrow> string \<Rightarrow> subjectAcc" where
  "subjPlus e activities s =
     e\<lparr>totalScore := totalScore e + sum_list (map activityAverage (subjectActivities activities s)),
       count := count e + length (subjectActivities activities s)\<rparr>"

definition ownSubject :: "classActivity \<Rightarrow> bool" where
  "ownSubject a = (act_subject_name a \<notin> set objectPrototypeKeys)"

definition unevenActivities :: "classActivity list" where
  "unevenActivities =
     [\<lparr>act_createdAt = ''2024-03-04T08:00:00.000Z'', act_subject_name = ''Mathematics'',
       act_submissions = [\<lparr>obtainedMarks = Some 80, totalMarks = Some 100\<rparr>]\<rparr>,
      \<lparr>act_createdAt = ''2024-03-11T08:00:00.000Z'', act_subject_name = ''Mathematics'',
       act_submissions = [\<lparr>obtainedMarks = Some 40, totalMarks = Some 100\<rparr>,
                          \<lparr>obtainedMarks = Some 40, totalMarks = Some 100\<rparr>,
                          \<lparr>obtainedMarks = Some 40, totalMarks = Some 100\<rparr>]\<rparr>]"


text \<open>
  Activities whose subject names are an inherited property name, and array indices given
  out of order.
\<close>

definition constructorActivities :: "classActivity list" where
  "constructorActivities =
     [\<lparr>act_createdAt = ''2024-03-04T08:00:00.000Z'', act_subject_name = ''constructor'',
       act_submissions = [\<lparr>obtainedMarks = Some 80, totalMarks = Some 100\<rparr>]\<rparr>,
      \<lparr>act_createdAt = ''2024-03-05T08:00:00.000Z'', act_subject_name = ''Art'',
       act_submissions = [\<lparr>obtainedMarks = Some 5, totalMarks = Some 0\<rparr>]\<rparr>]"

definition numberedActivities :: "classActivity list" where
  "numberedActivities =
     [\<lparr>act_createdAt = ''2024-03-04T08:00:00.000Z'', act_subject_name = ''Art'',
       act_submissions = []\<rparr>,
      \<lparr>act_createdAt = ''2024-03-04T08:00:00.000Z'', act_subject_name = ''10'',
       act_submissions = [\<lparr>obtainedMarks = Some 1, totalMarks = Some 2\<rparr>]\<rparr>,
      \<lparr>act_createdAt = ''2024-03-05T08:00:00.000Z'', act_subject_name = ''9'',
       act_submissions = [\<lparr>obtainedMarks = None, totalMarks = Some 2\<rparr>]\<rparr>]"


section \<open>Errors\<close>

text \<open>
  What a handler can throw: a \<open>TRPCError\<close> with its code, message and optional cause, an
  error of the ORM client with its code (\<open>P2025\<close>: a record the operation depends on was
  not found; \<open>P2002\<close>: a unique constraint failed), or another \<open>Error\<close> with its message.
  A handler that may throw returns a sum, \<open>Inl\<close> carrying what was thrown.
\<close>

datatype trpc_code = NOT_FOUND | UNAUTHORIZED | INTERNAL_SERVER_ERROR

datatype thrown =
    TRPCError trpc_code string "thrown option"
  | PrismaError string
  | OtherError string


section \<open>The data store\<close>

text \<open>
  The handlers reach the store through \<open>ctx.prisma\<close>.  The rows below carry the columns and
  relations the handlers of this development read or write; a relation that a query
  includes is part of the row.  \<open>Status\<close> has the members the router's \<open>search\<close> procedure
  enumerates.
\<close>

datatype Status = ACTIVE | INACTIVE | ARCHIVED

record teacherProfileRow =
  tp_id :: string
  tp_userId :: string

record classTeacherRow =
  ct_teacherId :: string
  ct_isClassTeacher :: bool
  ct_status :: Status

record classRow =
  cls_id :: string
  cls_name :: string
  cls_classGroupId :: string
  cls_campusId :: string
  cls_buildingId :: "string option"
  cls_roomId :: "string option"
  cls_capacity :: real
  cls_status :: Status
  cls_description :: "string option"
  cls_teachers :: "classTeacherRow list"

record subjectRow =
  sub_id :: string
  sub_name :: string
  sub_status :: Status

text \<open>
  The tables behind a gradebook.  A gradebook belongs to one class and refers to its
  assessment system and its term structure; an academic term refers to its term
  structure, an assessment period to its term, and a subject record to its gradebook and
  its subject.
\<close>

record assessmentSystemRow =
  as_id :: string
  as_name :: string

record termStructureRow =
  tsr_id :: string

record academicTermRow =
  atr_id :: string
  atr_termStructureId :: string

record assessmentPeriodRow =
  apr_id :: string
  apr_termId :: string

record subjectRecordRow =
  srr_id :: string
  srr_gradeBookId :: string
  srr_subjectId :: string

record gradeBookRow =
  gbr_id :: string
  gbr_classId :: string
  gbr_assessmentSystemId :: string
  gbr_termStructureId :: string

text \<open>
  The \<open>include\<close> object of a gradebook query, one flag for each relation it can name, and
  the object a query returns.  A relation that is not included, or whose record is
  missing, is absent from the object (\<open>None\<close>).
\<close>

record gradeBookInclude =
  inc_assessmentSystem :: bool
  inc_termStructure :: bool
  inc_academicTerms :: bool
  inc_assessmentPeriods :: bool
  inc_subjectRecords :: bool
  inc_subject :: bool

record academicTerm =
  at_id :: string
  at_assessmentPeriods :: "assessmentPeriodRow list option"

record termStructure =
  ts_id :: string
  ts_academicTerms :: "academicTerm list option"

record subjectRecord =
  sr_id :: string
  sr_subject :: "subjectRow option"

record gradeBook =
  gb_id :: string
  gb_classId :: string
  gb_assessmentSystem :: "assessmentSystemRow option"
  gb_termStructure :: "termStructure option"
  gb_subjectRecords :: "subjectRecord list option"

text \<open>
  The store: its tables, the identifiers of the records a class can be connected to, and
  a fault.  While the fault is set, every operation of the store throws it.
\<close>

record db =
  db_fault :: "thrown option"
  db_classes :: "classRow list"
  db_teacherProfiles :: "teacherProfileRow list"
  db_gradeBooks :: "gradeBookRow list"
  db_assessmentSystems :: "assessmentSystemRow list"
  db_termStructures :: "termStructureRow list"
  db_academicTerms :: "academicTermRow list"
  db_assessmentPeriods :: "assessmentPeriodRow list"
  db_subjectRecords :: "subjectRecordRow list"
  db_subjects :: "subjectRow list"
  db_classGroupIds :: "string list"
  db_campusIds :: "string list"
  db_buildingIds :: "string list"
  db_roomIds :: "string list"

text \<open>
  The \<open>where\<close> object of a query on classes, with the conditions the router builds.  A
  condition that is absent from the object is \<open>None\<close>.
\<close>

record classWhere =
  w_status :: "Status option"
  w_name_contains_insensitive :: "string option"
  w_classGroupId :: "string option"
  w_teachers_some_teacherId :: "string option"
  w_campus_id :: "string option"
  w_teachers_some_teacher_userId :: "string option"

text \<open>
  The lower-case form of an ASCII character: a capital letter gets bit 5 set (its code
  grows by 32), every other character is kept.
\<close>

definition to_lower :: "char \<Rightarrow> char" where
  "to_lower c =
     (if CHR ''A'' \<le> c \<and> c \<le> CHR ''Z''
      then (case c of Char b0 b1 b2 b3 b4 b5 b6 b7 \<Rightarrow> Char b0 b1 b2 b3 b4 True b6 b7)
      else c)"

text \<open>
  Modelled from the spec: the store's case-insensitive substring matching on a name field
  (\<open>contains\<close> with \<open>mode: 'insensitive'\<close>), on ASCII letters.
\<close>

definition contains_insensitive :: "string \<Rightarrow> string \<Rightarrow> bool" where
  "contains_insensitive name s = sublist (map to_lower s) (map to_lower name)"

text \<open>
  Modelled from the spec: whether a class row satisfies a \<open>where\<close> object; all conditions
  that are present must hold.
\<close>

definition class_matches :: "db \<Rightarrow> classWhere \<Rightarrow> classRow \<Rightarrow> bool" where
  "class_matches d w c =
     ((case w_status w of None \<Rightarrow> True | Some s \<Rightarrow> cls_status c = s) \<and>
      (case w_name_contains_insensitive w of None \<Rightarrow> True
       | Some s \<Rightarrow> contains_insensitive (cls_name c) s) \<and>
      (case w_classGroupId w of None \<Rightarrow> True | Some g \<Rightarrow> cls_classGroupId c = g) \<and>
      (case w_teachers_some_teacherId w of None \<Rightarrow> True
       | Some t \<Rightarrow> list_ex (\<lambda>ct. ct_teacherId ct = t) (cls_teachers c)) \<and>
      (case w_campus_id w of None \<Rightarrow> True | Some k \<Rightarrow> cls_campusId c = k) \<and>
      (case w_teachers_some_teacher_userId w of None \<Rightarrow> True
       | Some u \<Rightarrow>
           list_ex (\<lambda>ct. list_ex (\<lambda>p. tp_id p = ct_teacherId ct \<and> tp_userId p = u)
                            (db_teacherProfiles d))
                   (cls_teachers c)))"

text \<open>
  Modelled from the spec: the store's \<open>find\<close> of many classes by a \<open>where\<close> object,
  ordered by name when \<open>orderBy: { name: 'asc' }\<close> is given (bytewise order).
\<close>

definition class_findMany :: "db \<Rightarrow> classWhere \<Rightarrow> bool \<Rightarrow> thrown + classRow list" where
  "class_findMany d w orderByName =
     (case db_fault d of
        Some e \<Rightarrow> Inl e
      | None \<Rightarrow>
          Inr ((if orderByName then sort_key cls_name else (\<lambda>cs. cs))
                 (filter (class_matches d w) (db_classes d))))"

text \<open>
  Modelled from the spec: the store's \<open>delete\<close> of a class by identifier.  Deleting an
  identifier without a record is a store-level not-found failure (\<open>P2025\<close>).
\<close>

definition class_delete :: "db \<Rightarrow> string \<Rightarrow> (thrown + classRow) \<times> db" where
  "class_delete d i =
     (case db_fault d of
        Some e \<Rightarrow> (Inl e, d)
      | None \<Rightarrow>
          (case find (\<lambda>c. cls_id c = i) (db_classes d) of
             None \<Rightarrow> (Inl (PrismaError ''P2025''), d)
           | Some c \<Rightarrow> (Inr c, d\<lparr>db_classes := filter (\<lambda>c. cls_id c \<noteq> i) (db_classes d)\<rparr>)))"

text \<open>
  Modelled from the spec: the store's \<open>find\<close> of the teacher profiles whose user
  identifier is in a list.
\<close>

definition teacherProfile_findMany_userId_in ::
    "db \<Rightarrow> string list \<Rightarrow> thrown + teacherProfileRow list" where
  "teacherProfile_findMany_userId_in d ids =
     (case db_fault d of
        Some e \<Rightarrow> Inl e
      | None \<Rightarrow> Inr (filter (\<lambda>p. tp_userId p \<in> set ids) (db_teacherProfiles d)))"

text \<open>The \<open>data\<close> object of a class creation (\<open>Prisma.ClassCreateInput\<close>).\<close>

record classCreateData =
  d_name :: string
  d_classGroup_connect :: string
  d_campus_connect :: string
  d_building_connect :: "string option"
  d_room_connect :: "string option"
  d_capacity :: real
  d_status :: Status
  d_description :: "string option"
  d_teachers_createMany :: "classTeacherRow list"

text \<open>
  Modelled from the spec: the store's \<open>create\<close> of a class.  The store owns referential
  integrity: every \<open>connect\<close> must name an existing record, and the identifier of the new
  row, which the store generates and which is the parameter \<open>newId\<close> here, must be unused.
  The new row holds the connected identifiers as its relations.
\<close>

definition class_create :: "db \<Rightarrow> string \<Rightarrow> classCreateData \<Rightarrow> (thrown + classRow) \<times> db" where
  "class_create d newId dat =
     (case db_fault d of
        Some e \<Rightarrow> (Inl e, d)
      | None \<Rightarrow>
          if d_classGroup_connect dat \<notin> set (db_classGroupIds d) \<or>
             d_campus_connect dat \<notin> set (db_campusIds d) \<or>
             (case d_building_connect dat of None \<Rightarrow> False
              | Some b \<Rightarrow> b \<notin> set (db_buildingIds d)) \<or>
             (case d_room_connect dat of None \<Rightarrow> False
              | Some r \<Rightarrow> r \<notin> set (db_roomIds d))
          then (Inl (PrismaError ''P2025''), d)
          else if newId \<in> cls_id ` set (db_classes d)
          then (Inl (PrismaError ''P2002''), d)
          else
            (let row = \<lparr>cls_id = newId, cls_name = d_name dat,
                        cls_classGroupId = d_classGroup_connect dat,
                        cls_campusId = d_campus_connect dat,
                        cls_buildingId = d_building_connect dat,
                        cls_roomId = d_room_connect dat,
                        cls_capacity = d_capacity dat, cls_status = d_status dat,
                        cls_description = d_description dat,
                        cls_teachers = d_teachers_createMany dat\<rparr>
             in (Inr row, d\<lparr>db_classes := db_classes d @ [row]\<rparr>)))"

text \<open>
  Modelled from the spec: the related data the store joins to a gradebook it returns,
  as far as the \<open>include\<close> object asks for it.
\<close>

definition academicTerm_with :: "db \<Rightarrow> gradeBookInclude \<Rightarrow> academicTermRow \<Rightarrow> academicTerm" where
  "academicTerm_with d inc t =
     \<lparr>at_id = atr_id t,
      at_assessmentPeriods =
        (if inc_assessmentPeriods inc
         then Some (filter (\<lambda>p. apr_termId p = atr_id t) (db_assessmentPeriods d))
         else None)\<rparr>"

definition termStructure_with :: "db \<Rightarrow> gradeBookInclude \<Rightarrow> termStructureRow \<Rightarrow> termStructure" where
  "termStructure_with d inc s =
     \<lparr>ts_id = tsr_id s,
      ts_academicTerms =
        (if inc_academicTerms inc
         then Some (map (academicTerm_with d inc)
                      (filter (\<lambda>t. atr_termStructureId t = tsr_id s) (db_academicTerms d)))
         else None)\<rparr>"

definition subjectRecord_with :: "db \<Rightarrow> gradeBookInclude \<Rightarrow> subjectRecordRow \<Rightarrow> subjectRecord" where
  "subjectRecord_with d inc r =
     \<lparr>sr_id = srr_id r,
      sr_subject =
        (if inc_subject inc then find (\<lambda>s. sub_id s = srr_subjectId r) (db_subjects d)
         else None)\<rparr>"

definition gradeBook_with :: "db \<Rightarrow> gradeBookInclude \<Rightarrow> gradeBookRow \<Rightarrow> gradeBook" where
  "gradeBook_with d inc g =
     \<lparr>gb_id = gbr_id g,
      gb_classId = gbr_classId g,
      gb_assessmentSystem =
        (if inc_assessmentSystem inc
         then find (\<lambda>a. as_id a = gbr_assessmentSystemId g) (db_assessmentSystems d)
         else None),
      gb_termStructure =
        (if inc_termStructure inc
         then map_option (termStructure_with d inc)
                (find (\<lambda>s. tsr_id s = gbr_termStructureId g) (db_termStructures d))
         else None),
      gb_subjectRecords =
        (if inc_subjectRecords inc
         then Some (map (subjectRecord_with d inc)
                      (filter (\<lambda>r. srr_gradeBookId r = gbr_id g) (db_subjectRecords d)))
         else None)\<rparr>"

text \<open>
  Modelled from the spec: the store's \<open>find\<close> of the gradebook of a class (the class
  relation is unique), with the related data of the \<open>include\<close> object joined.
\<close>

definition gradeBook_findUnique ::
    "db \<Rightarrow> string \<Rightarrow> gradeBookInclude \<Rightarrow> thrown + gradeBook option" where
  "gradeBook_findUnique d classId inc =
     (case db_fault d of
        Some e \<Rightarrow> Inl e
      | None \<Rightarrow>
          Inr (map_option (gradeBook_with d inc)
                 (find (\<lambda>g. gbr_classId g = classId) (db_gradeBooks d))))"


section \<open>\<open>class.searchClasses\<close>\<close>

record searchClassesInput =
  in_classGroupId :: "string option"
  in_search :: "string option"
  in_teacherId :: "string option"
  in_status :: "Status option"
  in_campusId :: "string option"

text \<open>
  \<open>...(x && { cond })\<close>: the condition is part of the object only for a string that is
  present and not empty.
\<close>

definition when_truthy :: "string option \<Rightarrow> string option" where
  "when_truthy x = (case x of None \<Rightarrow> None | Some s \<Rightarrow> if truthy s then Some s else None)"

definition searchClasses_where :: "searchClassesInput \<Rightarrow> classWhere" where
  "searchClasses_where input =
     \<lparr>w_status = Some (case in_status input of None \<Rightarrow> ACTIVE | Some s \<Rightarrow> s),
      w_name_contains_insensitive = when_truthy (in_search input),
      w_classGroupId = when_truthy (in_classGroupId input),
      w_teachers_some_teacherId = when_truthy (in_teacherId input),
      w_campus_id = when_truthy (in_campusId input),
      w_teachers_some_teacher_userId = None\<rparr>"

definition searchClasses :: "db \<Rightarrow> searchClassesInput \<Rightarrow> thrown + classRow list" where
  "searchClasses d input =
     (case class_findMany d (searchClasses_where input) True of
        Inr classes \<Rightarrow> Inr classes
      | Inl error \<Rightarrow>
          Inl (TRPCError INTERNAL_SERVER_ERROR ''Failed to fetch classes'' (Some error)))"

definition noFilters :: searchClassesInput where
  "noFilters = \<lparr>in_classGroupId = None, in_search = None, in_teacherId = None,
                 in_status = None, in_campusId = None\<rparr>"


section \<open>\<open>class.createClass\<close>\<close>

record classCreateInput =
  ci_name :: string
  ci_classGroupId :: string
  ci_campusId :: string
  ci_buildingId :: "string option"
  ci_roomId :: "string option"
  ci_capacity :: real
  ci_status :: Status
  ci_classTutorId :: "string option"
  ci_teacherIds :: "string list option"
  ci_description :: "string option"

text \<open>\<open>classCreateSchema\<close>: the inputs the procedure accepts.\<close>

definition classCreateSchema :: "classCreateInput \<Rightarrow> bool" where
  "classCreateSchema input =
     (length (ci_name input) \<ge> 1 \<and> length (ci_classGroupId input) \<ge> 1 \<and>
      length (ci_campusId input) \<ge> 1 \<and> ci_capacity input \<ge> 1)"

text \<open>\<open>[...(input.teacherIds || []), input.classTutorId].filter(Boolean)\<close>\<close>

definition requestedTeacherIds :: "classCreateInput \<Rightarrow> string list" where
  "requestedTeacherIds input =
     List.map_filter when_truthy
       (map Some (case ci_teacherIds input of None \<Rightarrow> [] | Some ids \<Rightarrow> ids) @
        [ci_classTutorId input])"

definition createClass_data :: "classCreateInput \<Rightarrow> teacherProfileRow list \<Rightarrow> classCreateData" where
  "createClass_data input teacherProfiles =
     \<lparr>d_name = ci_name input,
      d_classGroup_connect = ci_classGroupId input,
      d_campus_connect = ci_campusId input,
      d_building_connect = when_truthy (ci_buildingId input),
      d_room_connect = when_truthy (ci_roomId input),
      d_capacity = ci_capacity input,
      d_status = ci_status input,
      d_description = ci_description input,
      d_teachers_createMany =
        map (\<lambda>profile. \<lparr>ct_teacherId = tp_id profile,
                          ct_isClassTeacher = (Some (tp_userId profile) = ci_classTutorId input),
                          ct_status = ACTIVE\<rparr>) teacherProfiles\<rparr>"

text \<open>
  The handler awaits the teacher profiles inside its \<open>try\<close>, so a failure there is caught
  and wrapped.  The promise of \<open>class.create\<close> is returned without \<open>await\<close>, so its rejection
  passes the \<open>catch\<close> and reaches the caller as it is.
\<close>

definition createClass :: "db \<Rightarrow> string \<Rightarrow> classCreateInput \<Rightarrow> (thrown + classRow) \<times> db" where
  "createClass d newId input =
     (case teacherProfile_findMany_userId_in d (requestedTeacherIds input) of
        Inl error \<Rightarrow>
          (Inl (TRPCError INTERNAL_SERVER_ERROR ''Failed to create class'' (Some error)), d)
      | Inr teacherProfiles \<Rightarrow> class_create d newId (createClass_data input teacherProfiles))"


section \<open>\<open>class.deleteClass\<close>\<close>

text \<open>The handler returns the store's \<open>delete\<close>; nothing is caught or wrapped.\<close>

definition deleteClass :: "db \<Rightarrow> string \<Rightarrow> (thrown + classRow) \<times> db" where
  "deleteClass d input = class_delete d input"


section \<open>An example store\<close>

definition algebraClass :: classRow where
  "algebraClass =
     \<lparr>cls_id = ''cls_1'', cls_name = ''Algebra I'', cls_classGroupId = ''cg_1'',
      cls_campusId = ''campus_1'', cls_buildingId = Some ''bld_1'', cls_roomId = None,
      cls_capacity = 30, cls_status = ACTIVE, cls_description = None,
      cls_teachers = [\<lparr>ct_teacherId = ''tp_1'', ct_isClassTeacher = True, ct_status = ACTIVE\<rparr>]\<rparr>"

definition physicsClass :: classRow where
  "physicsClass =
     \<lparr>cls_id = ''cls_2'', cls_name = ''Physics'', cls_classGroupId = ''cg_1'',
      cls_campusId = ''campus_1'', cls_buildingId = None, cls_roomId = None,
      cls_capacity = 25, cls_status = INACTIVE, cls_description = None,
      cls_teachers = []\<rparr>"

definition linearAlgebraClass :: classRow where
  "linearAlgebraClass =
     \<lparr>cls_id = ''cls_3'', cls_name = ''Linear ALGEBRA'', cls_classGroupId = ''cg_1'',
      cls_campusId = ''campus_1'', cls_buildingId = None, cls_roomId = None,
      cls_capacity = 20, cls_status = ACTIVE, cls_description = None,
      cls_teachers = []\<rparr>"

definition chemistryClass :: classRow where
  "chemistryClass =
     \<lparr>cls_id = ''cls_4'', cls_name = ''Chemistry'', cls_classGroupId = ''cg_1'',
      cls_campusId = ''campus_1'', cls_buildingId = None, cls_roomId = None,
      cls_capacity = 20, cls_status = ACTIVE, cls_description = None,
      cls_teachers = []\<rparr>"

definition schoolDb :: db where
  "schoolDb =
     \<lparr>db_fault = None,
      db_classes = [linearAlgebraClass, physicsClass, chemistryClass, algebraClass],
      db_teacherProfiles = [\<lparr>tp_id = ''tp_1'', tp_userId = ''user_1''\<rparr>],
      db_gradeBooks = [],
      db_assessmentSystems = [\<lparr>as_id = ''as_1'', as_name = ''Percentage''\<rparr>],
      db_termStructures = [],
      db_academicTerms = [],
      db_assessmentPeriods = [],
      db_subjectRecords = [],
      db_subjects = [\<lparr>sub_id = ''sub_1'', sub_name = ''Mathematics'', sub_status = ACTIVE\<rparr>],
      db_classGroupIds = [''cg_1''],
      db_campusIds = [''campus_1''],
      db_buildingIds = [''bld_1''],
      db_roomIds = [''room_1'']\<rparr>"


text \<open>Two inputs of \<open>class.createClass\<close>.\<close>

definition labInput :: classCreateInput where
  "labInput =
     \<lparr>ci_name = ''Chemistry Lab'', ci_classGroupId = ''cg_1'', ci_campusId = ''campus_1'',
      ci_buildingId = Some ''bld_1'', ci_roomId = None, ci_capacity = 12,
      ci_status = ACTIVE, ci_classTutorId = Some ''user_1'', ci_teacherIds = None,
      ci_description = None\<rparr>"

definition emptyBuildingInput :: classCreateInput where
  "emptyBuildingInput = labInput\<lparr>ci_buildingId := Some []\<rparr>"


section \<open>\<open>class.getGradebook\<close>\<close>

text \<open>
  \<open>GradeBookService.initializeGradeBook\<close> is not part of the sources.  It is the parameter
  \<open>initializeGradeBook\<close> of the handler: any routine that, given a class identifier and the
  store, completes or throws and leaves a store behind.  The handler's calls to the
  store and to the routine are recorded, in order.
\<close>

datatype event = GradeBookFindUnique string | InitializeGradeBook string

text \<open>
  The \<open>include\<close> object of both reads: the assessment system, the term structure with its
  academic terms and their assessment periods, and the subject records with their
  subject.
\<close>

definition gradeBookRelations :: gradeBookInclude where
  "gradeBookRelations =
     \<lparr>inc_assessmentSystem = True, inc_termStructure = True, inc_academicTerms = True,
      inc_assessmentPeriods = True, inc_subjectRecords = True, inc_subject = True\<rparr>"

text \<open>
  The \<open>catch\<close> of the handler: a \<open>TRPCError\<close> is thrown again as it is, anything else is
  wrapped.
\<close>

definition getGradebook_catch :: "thrown \<Rightarrow> thrown" where
  "getGradebook_catch error =
     (case error of
        TRPCError c m cause \<Rightarrow> error
      | _ \<Rightarrow> TRPCError INTERNAL_SERVER_ERROR ''Failed to fetch gradebook'' (Some error))"

definition getGradebook ::
    "(string \<Rightarrow> db \<Rightarrow> (thrown + unit) \<times> db) \<Rightarrow> db \<Rightarrow> string \<Rightarrow>
       (thrown + gradeBook) \<times> db \<times> event list" where
  "getGradebook initializeGradeBook d classId =
     (case gradeBook_findUnique d classId gradeBookRelations of
        Inl error \<Rightarrow> (Inl (getGradebook_catch error), d, [GradeBookFindUnique classId])
      | Inr (Some gradeBook) \<Rightarrow> (Inr gradeBook, d, [GradeBookFindUnique classId])
      | Inr None \<Rightarrow>
          (case initializeGradeBook classId d of
             (Inl error, d1) \<Rightarrow>
               (Inl (getGradebook_catch error), d1,
                [GradeBookFindUnique classId, InitializeGradeBook classId])
           | (Inr u, d1) \<Rightarrow>
               (case gradeBook_findUnique d1 classId gradeBookRelations of
                  Inl error \<Rightarrow>
                    (Inl (getGradebook_catch error), d1,
                     [GradeBookFindUnique classId, InitializeGradeBook classId,
                      GradeBookFindUnique classId])
                | Inr None \<Rightarrow>
                    (Inl (getGradebook_catch
                           (TRPCError NOT_FOUND ''Failed to initialize gradebook'' None)), d1,
                     [GradeBookFindUnique classId, InitializeGradeBook classId,
                      GradeBookFindUnique classId])
                | Inr (Some newGradeBook) \<Rightarrow>
                    (Inr newGradeBook, d1,
                     [GradeBookFindUnique classId, InitializeGradeBook classId,
                      GradeBookFindUnique classId]))))"

text \<open>The class identifiers the initialization routine was called with, in order.\<close>

fun initializations :: "event list \<Rightarrow> string list" where
  "initializations [] = []"
| "initializations (InitializeGradeBook c # es) = c # initializations es"
| "initializations (GradeBookFindUnique c # es) = initializations es"

text \<open>
  Initialization routines to run the handler with.  The first does what the
  specification describes, on a working store: it creates the gradebook of the class
  with a term structure, its academic terms and their assessment periods, and the
  subject records, as a plan lists them.  The second completes without creating
  anything, the third throws.
\<close>

record gradeBookPlan =
  plan_gradeBook :: gradeBookRow
  plan_termStructure :: termStructureRow
  plan_academicTerms :: "academicTermRow list"
  plan_assessmentPeriods :: "assessmentPeriodRow list"
  plan_subjectRecords :: "subjectRecordRow list"

definition createsGradeBook :: "gradeBookPlan \<Rightarrow> string \<Rightarrow> db \<Rightarrow> (thrown + unit) \<times> db" where
  "createsGradeBook plan classId d =
     (case db_fault d of
        Some e \<Rightarrow> (Inl e, d)
      | None \<Rightarrow>
          (Inr (),
           d\<lparr>db_gradeBooks := db_gradeBooks d @ [(plan_gradeBook plan)\<lparr>gbr_classId := classId\<rparr>],
             db_termStructures := db_termStructures d @ [plan_termStructure plan],
             db_academicTerms := db_academicTerms d @ plan_academicTerms plan,
             db_assessmentPeriods := db_assessmentPeriods d @ plan_assessmentPeriods plan,
             db_subjectRecords := db_subjectRecords d @ plan_subjectRecords plan\<rparr>))"

definition storesNothing :: "string \<Rightarrow> db \<Rightarrow> (thrown + unit) \<times> db" where
  "storesNothing classId d = (Inr (), d)"

definition throwsError :: "thrown \<Rightarrow> string \<Rightarrow> db \<Rightarrow> (thrown + unit) \<times> db" where
  "throwsError e classId d = (Inl e, d)"

definition firstPlan :: gradeBookPlan where
  "firstPlan =
     \<lparr>plan_gradeBook =
        \<lparr>gbr_id = ''gb_1'', gbr_classId = [], gbr_assessmentSystemId = ''as_1'',
         gbr_termStructureId = ''ts_1''\<rparr>,
      plan_termStructure = \<lparr>tsr_id = ''ts_1''\<rparr>,
      plan_academicTerms = [\<lparr>atr_id = ''term_1'', atr_termStructureId = ''ts_1''\<rparr>],
      plan_assessmentPeriods = [\<lparr>apr_id = ''ap_1'', apr_termId = ''term_1''\<rparr>],
      plan_subjectRecords =
        [\<lparr>srr_id = ''sr_1'', srr_gradeBookId = ''gb_1'', srr_subjectId = ''sub_1''\<rparr>]\<rparr>"

definition firstGradeBook :: gradeBook where
  "firstGradeBook =
     \<lparr>gb_id = ''gb_1'', gb_classId = ''cls_1'',
      gb_assessmentSystem = Some \<lparr>as_id = ''as_1'', as_name = ''Percentage''\<rparr>,
      gb_termStructure =
        Some \<lparr>ts_id = ''ts_1'',
              ts_academicTerms =
                Some [\<lparr>at_id = ''term_1'',
                       at_assessmentPeriods =
                         Some [\<lparr>apr_id = ''ap_1'', apr_termId = ''term_1''\<rparr>]\<rparr>]\<rparr>,
      gb_subjectRecords =
        Some [\<lparr>sr_id = ''sr_1'',
               sr_subject =
                 Some \<lparr>sub_id = ''sub_1'', sub_name = ''Mathematics'',
                       sub_status = ACTIVE\<rparr>\<rparr>]\<rparr>"


section \<open>\<open>class.getTeacherClasses\<close> and \<open>class.list\<close>\<close>

text \<open>The context of a call: the session, which may be missing, and the store.\<close>

record sessionUser =
  su_id :: "string option"

record session =
  s_user :: "sessionUser option"

record ctx =
  ctx_session :: "session option"
  ctx_prisma :: db

text \<open>\<open>ctx.session?.user?.id\<close>\<close>

definition session_user_id :: "ctx \<Rightarrow> string option" where
  "session_user_id c =
     (case ctx_session c of
        None \<Rightarrow> None
      | Some s \<Rightarrow> (case s_user s of None \<Rightarrow> None | Some u \<Rightarrow> su_id u))"

definition noConditions :: classWhere where
  "noConditions =
     \<lparr>w_status = None, w_name_contains_insensitive = None, w_classGroupId = None,
      w_teachers_some_teacherId = None, w_campus_id = None,
      w_teachers_some_teacher_userId = None\<rparr>"

text \<open>
  Both handlers return the promise of the store's \<open>findMany\<close>; none of them awaits it
  inside a \<open>try\<close>, so a failure of the store reaches the caller as it is.
\<close>

definition getTeacherClasses :: "ctx \<Rightarrow> thrown + classRow list" where
  "getTeacherClasses c =
     (case when_truthy (session_user_id c) of
        None \<Rightarrow> Inr []
      | Some userId \<Rightarrow>
          class_findMany (ctx_prisma c)
            (noConditions\<lparr>w_teachers_some_teacher_userId := Some userId\<rparr>) False)"

definition list_classes :: "ctx \<Rightarrow> thrown + classRow list" where
  "list_classes c =
     (if ctx_session c = None
      then Inl (TRPCError UNAUTHORIZED ''You must be logged in to access this resource'' None)
      else class_findMany (ctx_prisma c) noConditions False)"


section \<open>The teacher edit page\<close>

text \<open>
  \<open>page.tsx\<close> holds two variants of \<open>EditTeacherPage\<close>.  Both await the teacher, the
  subjects and the classes jointly inside a \<open>try\<close>; the outcome of that joint \<open>await\<close> is
  the argument \<open>loaded\<close>.  What the page returns is the element it renders; the form
  component itself is not part of the sources, so the form is represented by the
  properties it receives.  \<open>TeacherType\<close> names only the member \<open>CLASS\<close> in the sources.
\<close>

datatype TeacherType = CLASS | OtherTeacherType string

record teacherProfile =
  tpf_id :: string
  tpf_teacherType :: TeacherType
  tpf_specialization :: "string option"
  tpf_subjectIds :: "string list"
  tpf_classIds :: "string list"
  tpf_campusIds :: "string list"

record teacher =
  t_id :: string
  t_name :: "string option"
  t_email :: "string option"
  t_phoneNumber :: "string option"
  t_status :: Status
  t_teacherProfile :: "teacherProfile option"

text \<open>What the \<open>catch\<close> of the page got: an \<open>Error\<close> with its message, or any other value.\<close>

datatype caught = ErrorInstance string | NotAnError

datatype 'f page =
    InvalidTeacherId
  | TeacherNotFound
  | ErrorLoadingTeacher string
  | EditTeacherForm string 'f "subjectRow list" "classRow list"

text \<open>\<open>x || d\<close> on a string that may be \<open>null\<close>.\<close>

definition str_or :: "string option \<Rightarrow> string \<Rightarrow> string" where
  "str_or x d = (case x of None \<Rightarrow> d | Some s \<Rightarrow> if truthy s then s else d)"

definition errorLoadingMessage :: "caught \<Rightarrow> string" where
  "errorLoadingMessage error =
     ''Error loading teacher data: '' @
     (case error of ErrorInstance m \<Rightarrow> m | NotAnError \<Rightarrow> ''Unknown error'')"

text \<open>
  The first variant passes the teacher on with \<open>null\<close> turned into \<open>undefined\<close>
  (\<open>x ?? undefined\<close>); both are \<open>None\<close> here.
\<close>

record sanitizedProfile =
  sp1_id :: string
  sp1_teacherType :: TeacherType
  sp1_specialization :: "string option"
  sp1_subjectIds :: "string list"
  sp1_classIds :: "string list"
  sp1_campusIds :: "string list"

record sanitizedTeacher =
  st_id :: string
  st_name :: "string option"
  st_email :: "string option"
  st_phoneNumber :: "string option"
  st_status :: Status
  st_teacherProfile :: "sanitizedProfile option"

definition sanitizedTeacher_first :: "teacher \<Rightarrow> sanitizedTeacher" where
  "sanitizedTeacher_first teacher =
     \<lparr>st_id = t_id teacher,
      st_name = t_name teacher,
      st_email = t_email teacher,
      st_phoneNumber = t_phoneNumber teacher,
      st_status = t_status teacher,
      st_teacherProfile =
        (case t_teacherProfile teacher of
           Some p \<Rightarrow>
             Some \<lparr>sp1_id = tpf_id p, sp1_teacherType = tpf_teacherType p,
                   sp1_specialization = tpf_specialization p,
                   sp1_subjectIds = tpf_subjectIds p, sp1_classIds = tpf_classIds p,
                   sp1_campusIds = tpf_campusIds p\<rparr>
         | None \<Rightarrow> None)\<rparr>"

definition EditTeacherPage_first ::
    "string \<Rightarrow> caught + teacher option \<times> subjectRow list \<times> classRow list \<Rightarrow>
       sanitizedTeacher page" where
  "EditTeacherPage_first params_id loaded =
     (if \<not> truthy params_id then InvalidTeacherId
      else case loaded of
             Inl error \<Rightarrow> ErrorLoadingTeacher (errorLoadingMessage error)
           | Inr (None, subjects, classes) \<Rightarrow> TeacherNotFound
           | Inr (Some teacher, subjects, classes) \<Rightarrow>
               EditTeacherForm params_id (sanitizedTeacher_first teacher) subjects classes)"

text \<open>The second variant builds the initial values of the form.\<close>

record teacherFormData =
  fd_name :: string
  fd_email :: string
  fd_phoneNumber :: string
  fd_teacherType :: TeacherType
  fd_specialization :: string
  fd_campusIds :: "string list"
  fd_subjectIds :: "string list"
  fd_classIds :: "string list"

definition sanitizedTeacher_second :: "teacher \<Rightarrow> teacherFormData" where
  "sanitizedTeacher_second teacher =
     \<lparr>fd_name = str_or (t_name teacher) [],
      fd_email = str_or (t_email teacher) [],
      fd_phoneNumber = str_or (t_phoneNumber teacher) [],
      fd_teacherType =
        (case t_teacherProfile teacher of None \<Rightarrow> CLASS | Some p \<Rightarrow> tpf_teacherType p),
      fd_specialization =
        str_or (case t_teacherProfile teacher of None \<Rightarrow> None
                | Some p \<Rightarrow> tpf_specialization p) [],
      fd_campusIds =
        (case t_teacherProfile teacher of None \<Rightarrow> [] | Some p \<Rightarrow> tpf_campusIds p),
      fd_subjectIds =
        (case t_teacherProfile teacher of None \<Rightarrow> [] | Some p \<Rightarrow> tpf_subjectIds p),
      fd_classIds =
        (case t_teacherProfile teacher of None \<Rightarrow> [] | Some p \<Rightarrow> tpf_classIds p)\<rparr>"

definition EditTeacherPage_second ::
    "string \<Rightarrow> caught + teacher option \<times> subjectRow list \<times> classRow list \<Rightarrow>
       teacherFormData page" where
  "EditTeacherPage_second params_id loaded =
     (if \<not> truthy params_id then InvalidTeacherId
      else case loaded of
             Inl error \<Rightarrow> ErrorLoadingTeacher (errorLoadingMessage error)
           | Inr (None, subjects, classes) \<Rightarrow> TeacherNotFound
           | Inr (Some teacher, subjects, classes) \<Rightarrow>
               EditTeacherForm params_id (sanitizedTeacher_second teacher) subjects classes)"

definition unnamedTeacher :: teacher where
  "unnamedTeacher =
     \<lparr>t_id = ''user_7'', t_name = None, t_email = None, t_phoneNumber = None,
      t_status = ACTIVE, t_teacherProfile = None\<rparr>"

definition namedTeacher :: teacher where
  "namedTeacher =
     \<lparr>t_id = ''user_8'', t_name = Some ''Ada'', t_email = Some ''ada@school.example'',
      t_phoneNumber = None, t_status = ACTIVE, t_teacherProfile = None\<rparr>"


section \<open>Dictionaries: basic facts\<close>

lemma dict_modify_keys: "map fst (dict_modify k f acc) = map fst acc"
  by (induction acc) auto

lemma dict_modify_get:
  "map_of (dict_modify k f acc) k' =
     (if k' = k then map_option f (map_of acc k) else map_of acc k')"
  by (induction acc) auto

lemma reduce_sum_acc: "foldl (\<lambda>acc x. acc + f x) a xs = a + sum_list (map f xs)"
  by (induction xs arbitrary: a) (auto simp: algebra_simps)

lemma reduce_sum_sum_list: "reduce_sum f xs = sum_list (map f xs)"
  by (simp add: reduce_sum_def reduce_sum_acc)

lemma dict_add_get:
  "map_of acc k = None \<Longrightarrow>
   map_of (dict_add k v acc) k' = (if k' = k then Some v else map_of acc k')"
  by (auto simp: dict_add_def map_add_def split: option.splits)

section \<open>Grouping attendance records by day\<close>

lemma step_keys:
  "map fst (attendanceByDate_step acc r) =
     (if isoDay (att_date r) \<in> set (map fst acc) then map fst acc
      else map fst acc @ [isoDay (att_date r)])"
  by (auto simp: attendanceByDate_step_def Let_def dict_get_def dict_add_def dict_modify_keys
      map_of_eq_None_iff)

lemma step_get:
  "map_of (attendanceByDate_step acc r) d =
     (if d = isoDay (att_date r)
      then Some (statsPlus (case map_of acc d of None \<Rightarrow> \<lparr>present = 0, total = 0\<rparr> | Some s \<Rightarrow> s) [r] d)
      else map_of acc d)"
proof (cases "map_of acc (isoDay (att_date r))")
  case None
  then show ?thesis
    by (simp add: attendanceByDate_step_def Let_def dict_get_def dict_modify_get dict_add_get
      statsPlus_def dayPresent_def dayTotal_def)
next
  case (Some s)
  then show ?thesis
    by (simp add: attendanceByDate_step_def Let_def dict_get_def dict_modify_get
      statsPlus_def dayPresent_def dayTotal_def)
qed

lemma statsPlus_Cons:
  "statsPlus (statsPlus s [r] d) recs d = statsPlus s (r # recs) d"
  by (simp add: statsPlus_def dayPresent_def dayTotal_def)

lemma statsPlus_Cons_other:
  "d \<noteq> isoDay (att_date r) \<Longrightarrow> statsPlus s (r # recs) d = statsPlus s recs d"
  by (simp add: statsPlus_def dayPresent_def dayTotal_def)

lemma foldl_step_get:
  "map_of (foldl attendanceByDate_step acc recs) d =
     (case map_of acc d of
        Some s \<Rightarrow> Some (statsPlus s recs d)
      | None \<Rightarrow> if d \<in> recordDays recs
                then Some (statsPlus \<lparr>present = 0, total = 0\<rparr> recs d) else None)"
proof (induction recs arbitrary: acc)
  case Nil
  show ?case
    by (simp add: recordDays_def statsPlus_def dayPresent_def dayTotal_def split: option.splits)
next
  case (Cons r recs)
  have unfold: "map_of (foldl attendanceByDate_step acc (r # recs)) d =
     (case map_of (attendanceByDate_step acc r) d of
        Some s \<Rightarrow> Some (statsPlus s recs d)
      | None \<Rightarrow> if d \<in> recordDays recs
                then Some (statsPlus \<lparr>present = 0, total = 0\<rparr> recs d) else None)"
    by (simp add: Cons.IH)
  show ?case
  proof (cases "d = isoDay (att_date r)")
    case True
    then show ?thesis
      unfolding unfold step_get
      by (cases "map_of acc d") (simp_all add: statsPlus_Cons recordDays_def)
  next
    case False
    then show ?thesis
      unfolding unfold step_get
      by (cases "map_of acc d") (auto simp add: statsPlus_Cons_other recordDays_def)
  qed
qed

lemma foldl_step_keys:
  "distinct (map fst acc) \<Longrightarrow>
   distinct (map fst (foldl attendanceByDate_step acc recs)) \<and>
   set (map fst (foldl attendanceByDate_step acc recs)) = set (map fst acc) \<union> recordDays recs"
proof (induction recs arbitrary: acc)
  case Nil
  then show ?case by (simp add: recordDays_def)
next
  case (Cons r recs)
  have d: "distinct (map fst (attendanceByDate_step acc r))"
    using Cons.prems by (simp add: step_keys)
  show ?case
    using Cons.IH [OF d] by (auto simp: step_keys recordDays_def)
qed

lemma attendanceByDate_get:
  "map_of (attendanceByDate recs) d =
     (if d \<in> recordDays recs then Some (statsOf recs d) else None)"
  by (simp add: attendanceByDate_def foldl_step_get statsPlus_def statsOf_def)

lemma attendanceByDate_keys:
  "distinct (map fst (attendanceByDate recs))"
  "set (map fst (attendanceByDate recs)) = recordDays recs"
  using foldl_step_keys [of "[]" recs] by (simp_all add: attendanceByDate_def)

lemma attendanceByDate_entries:
  "attendanceByDate recs = map (\<lambda>d. (d, statsOf recs d)) (map fst (attendanceByDate recs))"
proof -
  have "\<And>kv. kv \<in> set (attendanceByDate recs) \<Longrightarrow> snd kv = statsOf recs (fst kv)"
  proof -
    fix kv assume kv: "kv \<in> set (attendanceByDate recs)"
    then have "map_of (attendanceByDate recs) (fst kv) = Some (snd kv)"
      using attendanceByDate_keys(1) [of recs] by simp
    then show "snd kv = statsOf recs (fst kv)"
      by (simp add: attendanceByDate_get split: if_splits)
  qed
  then have "map (\<lambda>kv. (fst kv, statsOf recs (fst kv))) (attendanceByDate recs) = map (\<lambda>kv. kv) (attendanceByDate recs)"
    by (intro map_cong) (auto simp: prod_eq_iff)
  then show ?thesis by (simp add: comp_def)
qed


lemma trends_by_day:
  "trends (getAttendanceStats recs) =
     map (\<lambda>d. \<lparr>date = d, attendanceRate = dayRate recs d\<rparr>) (map fst (attendanceByDate recs))"
proof -
  have "trends (getAttendanceStats recs) =
      map (\<lambda>(d, stats). \<lparr>date = d, attendanceRate = real (present stats) / real (total stats) * 100\<rparr>)
        (map (\<lambda>d. (d, statsOf recs d)) (map fst (attendanceByDate recs)))"
    using attendanceByDate_entries [of recs] by (simp add: getAttendanceStats_def Let_def)
  then show ?thesis
    by (simp add: comp_def statsOf_def dayRate_def)
qed

lemma recordDays_empty: "recordDays recs = {} \<longleftrightarrow> recs = []"
  by (simp add: recordDays_def)

lemma averageAttendance_by_day:
  "averageAttendance (getAttendanceStats recs) =
     (if recs = [] then 0
      else (\<Sum>d\<in>recordDays recs. dayRate recs d) / real (card (recordDays recs)))"
proof -
  let ?keys = "map fst (attendanceByDate recs)"
  let ?ts = "trends (getAttendanceStats recs)"
  have avg: "averageAttendance (getAttendanceStats recs) =
      (if length ?ts > 0 then reduce_sum attendanceRate ?ts / real (length ?ts) else 0)"
    by (simp add: getAttendanceStats_def Let_def)
  have len: "length ?ts = card (recordDays recs)"
  proof -
    have "card (set ?keys) = length ?keys"
      using attendanceByDate_keys(1) [of recs] by (rule distinct_card)
    then show ?thesis
      using attendanceByDate_keys(2) [of recs] by (simp add: trends_by_day)
  qed
  have "reduce_sum attendanceRate ?ts = sum_list (map (dayRate recs) ?keys)"
    by (simp add: reduce_sum_sum_list trends_by_day comp_def)
  also have "\<dots> = sum (dayRate recs) (set ?keys)"
    using attendanceByDate_keys(1) [of recs] by (rule sum_list_distinct_conv_sum_set)
  also have "\<dots> = (\<Sum>d\<in>recordDays recs. dayRate recs d)"
    unfolding attendanceByDate_keys(2) ..
  finally have s: "reduce_sum attendanceRate ?ts = (\<Sum>d\<in>recordDays recs. dayRate recs d)" .
  have pos: "0 < card (recordDays recs) \<longleftrightarrow> recs \<noteq> []"
    by (simp add: card_gt_0_iff recordDays_empty) (simp add: recordDays_def)
  show ?thesis
    unfolding avg s len using pos by simp
qed


section \<open>Claims about \<open>class.getAttendanceStats\<close>\<close>

text \<open>
  C2 (as amended).  The trend list has exactly one entry per calendar day that occurs
  among the records, and the \<open>attendanceRate\<close> of a day is the number of its \<open>PRESENT\<close>
  records divided by the number of its records, times 100.  A day with three \<open>PRESENT\<close>
  records and one other record therefore has the rate 75.
\<close>

theorem getAttendanceStats_daily_rate:
  "distinct (map date (trends (getAttendanceStats recs))) \<and>
   set (map date (trends (getAttendanceStats recs))) = recordDays recs \<and>
   (\<forall>t \<in> set (trends (getAttendanceStats recs)). attendanceRate t = dayRate recs (date t)) \<and>
   (\<forall>d \<in> recordDays recs. dayPresent recs d = 3 \<and> dayTotal recs d = 4 \<longrightarrow>
      \<lparr>date = d, attendanceRate = 75\<rparr> \<in> set (trends (getAttendanceStats recs)))"
proof (intro conjI ballI impI)
  show "distinct (map date (trends (getAttendanceStats recs)))"
    using attendanceByDate_keys(1) [of recs] by (simp add: trends_by_day comp_def)
  show keys: "set (map date (trends (getAttendanceStats recs))) = recordDays recs"
    using attendanceByDate_keys(2) [of recs] by (simp add: trends_by_day comp_def)
  show "attendanceRate t = dayRate recs (date t)"
    if "t \<in> set (trends (getAttendanceStats recs))" for t
    using that by (auto simp: trends_by_day)
  show "\<lparr>date = d, attendanceRate = 75\<rparr> \<in> set (trends (getAttendanceStats recs))"
    if "d \<in> recordDays recs" and "dayPresent recs d = 3 \<and> dayTotal recs d = 4" for d
  proof -
    have "d \<in> set (map fst (attendanceByDate recs))"
      using that(1) attendanceByDate_keys(2) [of recs] by simp
    moreover have "dayRate recs d = 75"
      using that(2) by (simp add: dayRate_def)
    ultimately show ?thesis
      by (force simp: trends_by_day)
  qed
qed

theorem getAttendanceStats_daily_rate_witness:
  "dayPresent threePresentOneAbsent ''2024-03-04'' = 3 \<and>
   dayTotal threePresentOneAbsent ''2024-03-04'' = 4 \<and>
   \<lparr>date = ''2024-03-04'', attendanceRate = 75\<rparr>
     \<in> set (trends (getAttendanceStats threePresentOneAbsent))"
proof -
  have h: "''2024-03-04'' \<in> recordDays threePresentOneAbsent \<and>
      dayPresent threePresentOneAbsent ''2024-03-04'' = 3 \<and>
      dayTotal threePresentOneAbsent ''2024-03-04'' = 4"
    by (simp add: threePresentOneAbsent_def dayPresent_def dayTotal_def isoDay_def
        recordDays_def)
  with getAttendanceStats_daily_rate [of threePresentOneAbsent] show ?thesis
    by blast
qed

text \<open>
  C2 as it was stated gives 80 for that day.  The handler returns 75.
\<close>

theorem getAttendanceStats_three_of_four_is_not_80:
  "dayPresent threePresentOneAbsent ''2024-03-04'' = 3 \<and>
   dayTotal threePresentOneAbsent ''2024-03-04'' = 4 \<and>
   trends (getAttendanceStats threePresentOneAbsent) =
     [\<lparr>date = ''2024-03-04'', attendanceRate = 75\<rparr>] \<and>
   attendanceRate (hd (trends (getAttendanceStats threePresentOneAbsent))) \<noteq> 80"
  by (simp add: threePresentOneAbsent_def getAttendanceStats_def attendanceByDate_def
      attendanceByDate_step_def Let_def dict_get_def dict_add_def isoDay_def
      dayPresent_def dayTotal_def)

text \<open>
  C3.  \<open>averageAttendance\<close> is the arithmetic mean of the rates of the days that have a
  record (and 0 when there is no record).  It is not the ratio over all records: for one
  day with a single \<open>PRESENT\<close> record and another day with three \<open>ABSENT\<close> records the
  handler returns 50, while the ratio over all four records is 25.
\<close>

theorem getAttendanceStats_average_is_mean_of_days:
  "averageAttendance (getAttendanceStats recs) =
     (if recs = [] then 0
      else (\<Sum>d\<in>recordDays recs. dayRate recs d) / real (card (recordDays recs))) \<and>
   averageAttendance (getAttendanceStats unevenDays) = 50 \<and>
   globalRate unevenDays = 25"
proof (intro conjI)
  show "averageAttendance (getAttendanceStats recs) =
     (if recs = [] then 0
      else (\<Sum>d\<in>recordDays recs. dayRate recs d) / real (card (recordDays recs)))"
    by (rule averageAttendance_by_day)
  show "averageAttendance (getAttendanceStats unevenDays) = 50"
    by (simp add: unevenDays_def getAttendanceStats_def attendanceByDate_def
        attendanceByDate_step_def Let_def dict_get_def dict_add_def isoDay_def reduce_sum_def)
  show "globalRate unevenDays = 25"
    by (simp add: unevenDays_def globalRate_def)
qed

theorem getAttendanceStats_average_is_mean_of_days_witness:
  "averageAttendance (getAttendanceStats unevenDays) =
     (dayRate unevenDays ''2024-03-04'' + dayRate unevenDays ''2024-03-05'') / 2"
proof -
  have days: "recordDays unevenDays = {''2024-03-04'', ''2024-03-05''}"
    by (simp add: unevenDays_def recordDays_def isoDay_def)
  have ne: "unevenDays \<noteq> []"
    by (simp add: unevenDays_def)
  from getAttendanceStats_average_is_mean_of_days [of unevenDays] ne
  have "averageAttendance (getAttendanceStats unevenDays) =
      (\<Sum>d\<in>recordDays unevenDays. dayRate unevenDays d) / real (card (recordDays unevenDays))"
    by simp
  then show ?thesis
    unfolding days by simp
qed


section \<open>Claims about \<open>class.getHistoricalAnalytics\<close>\<close>

text \<open>
  C4 (as amended).  With more than one record, \<open>studentGrowth\<close> is the presence of the last
  record's id minus the presence of the first record's id, divided by 1 and multiplied
  by 100: the divisor \<open>id ? 1 : 1\<close> is 1 whether or not the first id is set.  With zero or
  one record it is 0.  No count of students enters.  Where the first id is set, this is
  the quotient by the first record's presence.
\<close>

theorem getHistoricalAnalytics_growth:
  "studentGrowth (getHistoricalAnalytics hs) =
     (if length hs > 1 then (idPresence (last hs) - idPresence (hd hs)) / 1 * 100 else 0) \<and>
   historicalData (getHistoricalAnalytics hs) = hs \<and>
   (length hs > 1 \<and> truthy (sp_id (hd hs)) \<longrightarrow>
      studentGrowth_by_first_presence hs = Some (studentGrowth (getHistoricalAnalytics hs)))"
proof -
  have growth: "studentGrowth (getHistoricalAnalytics hs) =
     (if length hs > 1 then (idPresence (last hs) - idPresence (hd hs)) / 1 * 100 else 0)"
  proof (cases "length hs > 1")
    case True
    then have "hs \<noteq> []" by auto
    then have "hs ! 0 = hd hs" "hs ! (length hs - 1) = last hs"
      by (simp_all add: hd_conv_nth last_conv_nth)
    with True show ?thesis
      by (simp add: getHistoricalAnalytics_def idPresence_def)
  next
    case False
    then show ?thesis by (simp add: getHistoricalAnalytics_def)
  qed
  have "historicalData (getHistoricalAnalytics hs) = hs"
    by (simp add: getHistoricalAnalytics_def)
  moreover have "studentGrowth_by_first_presence hs = Some (studentGrowth (getHistoricalAnalytics hs))"
    if "length hs > 1 \<and> truthy (sp_id (hd hs))"
    using that unfolding growth by (simp add: studentGrowth_by_first_presence_def idPresence_def)
  ultimately show ?thesis
    using growth by blast
qed

theorem getHistoricalAnalytics_growth_witness:
  "length bothIdsSet > 1 \<and> truthy (sp_id (hd bothIdsSet)) \<and>
   studentGrowth (getHistoricalAnalytics bothIdsSet) = 0 \<and>
   studentGrowth_by_first_presence bothIdsSet = Some 0"
proof -
  have h: "length bothIdsSet > 1 \<and> truthy (sp_id (hd bothIdsSet))"
    by (simp add: bothIdsSet_def truthy_def)
  have "idPresence (last bothIdsSet) = 1" "idPresence (hd bothIdsSet) = 1"
    by (simp_all add: bothIdsSet_def idPresence_def truthy_def)
  with h getHistoricalAnalytics_growth [of bothIdsSet] show ?thesis
    by simp
qed

text \<open>
  C4 as it was stated divides by the first record's presence.  With the first id unset
  and the last id set that presence is 0 and the quotient is not a finite number; the
  handler divides by 1 and returns 100.
\<close>

theorem getHistoricalAnalytics_divisor_is_not_presence:
  "length firstIdUnset > 1 \<and>
   idPresence (hd firstIdUnset) = 0 \<and>
   studentGrowth (getHistoricalAnalytics firstIdUnset) = 100 \<and>
   studentGrowth_by_first_presence firstIdUnset = None"
  by (simp add: getHistoricalAnalytics_def firstIdUnset_def
      studentGrowth_by_first_presence_def idPresence_def truthy_def)


section \<open>Grouping activities by subject\<close>

lemma submissionScore_percentage: "submissionScore = percentage"
  by (rule ext) (simp add: submissionScore_def percentage_def num_or_def split: option.splits)

lemma activityAverage_mean: "activityAverage = activityMean"
  by (rule ext)
     (simp add: activityAverage_def activityMean_def reduce_sum_sum_list submissionScore_percentage)

lemma subjectWise_step_keys:
  "map fst (subjectWise_step_own acc a) =
     (if act_subject_name a \<in> set (map fst acc) then map fst acc
      else map fst acc @ [act_subject_name a])"
  by (auto simp: subjectWise_step_own_def Let_def dict_get_def dict_add_def dict_modify_keys
      map_of_eq_None_iff)

lemma subjectWise_step_get:
  "map_of (subjectWise_step_own acc a) s =
     (if s = act_subject_name a
      then Some (subjPlus (case map_of acc s of
                             None \<Rightarrow> \<lparr>sa_subject = s, totalScore = 0, count = 0\<rparr>
                           | Some e \<Rightarrow> e) [a] s)
      else map_of acc s)"
proof (cases "map_of acc (act_subject_name a)")
  case None
  then show ?thesis
    by (simp add: subjectWise_step_own_def Let_def dict_get_def dict_modify_get dict_add_get
        subjPlus_def subjectActivities_def)
next
  case (Some e)
  then show ?thesis
    by (simp add: subjectWise_step_own_def Let_def dict_get_def dict_modify_get
        subjPlus_def subjectActivities_def)
qed

lemma subjPlus_Cons:
  "subjPlus (subjPlus e [a] s) activities s = subjPlus e (a # activities) s"
  by (simp add: subjPlus_def subjectActivities_def)

lemma subjPlus_Cons_other:
  "s \<noteq> act_subject_name a \<Longrightarrow> subjPlus e (a # activities) s = subjPlus e activities s"
  by (simp add: subjPlus_def subjectActivities_def)

lemma foldl_subjectWise_get:
  "map_of (foldl subjectWise_step_own acc activities) s =
     (case map_of acc s of
        Some e \<Rightarrow> Some (subjPlus e activities s)
      | None \<Rightarrow> if s \<in> activitySubjects activities
                then Some (subjPlus \<lparr>sa_subject = s, totalScore = 0, count = 0\<rparr> activities s)
                else None)"
proof (induction activities arbitrary: acc)
  case Nil
  show ?case
    by (simp add: activitySubjects_def subjPlus_def subjectActivities_def split: option.splits)
next
  case (Cons a activities)
  have unfold: "map_of (foldl subjectWise_step_own acc (a # activities)) s =
     (case map_of (subjectWise_step_own acc a) s of
        Some e \<Rightarrow> Some (subjPlus e activities s)
      | None \<Rightarrow> if s \<in> activitySubjects activities
                then Some (subjPlus \<lparr>sa_subject = s, totalScore = 0, count = 0\<rparr> activities s)
                else None)"
    by (simp add: Cons.IH)
  show ?case
  proof (cases "s = act_subject_name a")
    case True
    then show ?thesis
      unfolding unfold subjectWise_step_get
      by (cases "map_of acc s") (simp_all add: subjPlus_Cons activitySubjects_def)
  next
    case False
    then show ?thesis
      unfolding unfold subjectWise_step_get
      by (cases "map_of acc s") (auto simp add: subjPlus_Cons_other activitySubjects_def)
  qed
qed

lemma foldl_subjectWise_keys:
  "distinct (map fst acc) \<Longrightarrow>
   distinct (map fst (foldl subjectWise_step_own acc activities)) \<and>
   set (map fst (foldl subjectWise_step_own acc activities)) =
     set (map fst acc) \<union> activitySubjects activities"
proof (induction activities arbitrary: acc)
  case Nil
  then show ?case by (simp add: activitySubjects_def)
next
  case (Cons a activities)
  have d: "distinct (map fst (subjectWise_step_own acc a))"
    using Cons.prems by (simp add: subjectWise_step_keys)
  show ?case
    using Cons.IH [OF d] by (auto simp: subjectWise_step_keys activitySubjects_def)
qed

lemma subjectWise_step_own_eq:
  "ownSubject a \<Longrightarrow> subjectWise_step acc a = subjectWise_step_own acc a"
proof (cases "map_of acc (act_subject_name a)")
  case None
  assume "ownSubject a"
  with None show ?thesis
    by (simp add: subjectWise_step_def subjectWise_step_own_def Let_def plain_get_def
        dict_get_def ownSubject_def dict_add_get)
next
  case (Some e)
  assume "ownSubject a"
  with Some show ?thesis
    by (simp add: subjectWise_step_def subjectWise_step_own_def Let_def plain_get_def
        dict_get_def ownSubject_def)
qed

lemma subjectWise_step_inherited:
  "\<not> ownSubject a \<Longrightarrow> map_of acc (act_subject_name a) = None \<Longrightarrow>
   subjectWise_step acc a = acc"
  by (simp add: subjectWise_step_def Let_def plain_get_def ownSubject_def)

lemma foldl_subjectWise_step_filter:
  "set (map fst acc) \<inter> set objectPrototypeKeys = {} \<Longrightarrow>
   foldl subjectWise_step acc activities =
     foldl subjectWise_step_own acc (filter ownSubject activities)"
proof (induction activities arbitrary: acc)
  case Nil
  show ?case by simp
next
  case (Cons a activities)
  show ?case
  proof (cases "ownSubject a")
    case True
    have "set (map fst (subjectWise_step_own acc a)) \<inter> set objectPrototypeKeys = {}"
      using Cons.prems True by (auto simp: subjectWise_step_keys ownSubject_def)
    from Cons.IH [OF this] True show ?thesis
      by (simp add: subjectWise_step_own_eq)
  next
    case False
    then have "act_subject_name a \<notin> set (map fst acc)"
      using Cons.prems by (auto simp: ownSubject_def)
    then have "map_of acc (act_subject_name a) = None"
      by (simp add: map_of_eq_None_iff)
    with False Cons.IH [OF Cons.prems] show ?thesis
      by (simp add: subjectWise_step_inherited)
  qed
qed

lemma subjectWise_own:
  "subjectWise activities = foldl subjectWise_step_own [] (filter ownSubject activities)"
  by (simp add: subjectWise_def foldl_subjectWise_step_filter)

lemma activitySubjects_filter:
  "activitySubjects (filter ownSubject activities) =
     activitySubjects activities - set objectPrototypeKeys"
  by (auto simp: activitySubjects_def ownSubject_def)

lemma subjectActivities_filter:
  "s \<notin> set objectPrototypeKeys \<Longrightarrow>
   subjectActivities (filter ownSubject activities) s = subjectActivities activities s"
  by (auto simp: subjectActivities_def ownSubject_def intro: filter_cong)

lemma subjectWise_keys:
  "distinct (map fst (subjectWise activities))"
  "set (map fst (subjectWise activities)) =
     activitySubjects activities - set objectPrototypeKeys"
  using foldl_subjectWise_keys [of "[]" "filter ownSubject activities"]
  by (simp_all add: subjectWise_own activitySubjects_filter)

lemma subjectWise_get:
  "map_of (subjectWise activities) s =
     (if s \<in> activitySubjects activities - set objectPrototypeKeys
      then Some \<lparr>sa_subject = s,
                 totalScore = sum_list (map activityMean (subjectActivities activities s)),
                 count = length (subjectActivities activities s)\<rparr>
      else None)"
  by (simp add: subjectWise_own foldl_subjectWise_get subjPlus_def activitySubjects_filter
      subjectActivities_filter activityAverage_mean)

lemma subjectWise_entry:
  assumes "(k, e) \<in> set (subjectWise activities)"
  shows "e = \<lparr>sa_subject = k,
              totalScore = sum_list (map activityMean (subjectActivities activities k)),
              count = length (subjectActivities activities k)\<rparr>"
proof -
  have "map_of (subjectWise activities) k = Some e"
    using assms subjectWise_keys(1) [of activities] by simp
  then show ?thesis
    by (simp add: subjectWise_get split: if_splits)
qed

lemma own_property_order_set: "set (own_property_order ps) = set ps"
  by (auto simp: own_property_order_def)

lemma own_property_order_distinct_keys:
  assumes "distinct (map fst ps)"
  shows "distinct (map fst (own_property_order ps))"
proof -
  let ?ix = "filter (\<lambda>p. is_array_index (fst p)) ps"
  let ?st = "filter (\<lambda>p. \<not> is_array_index (fst p)) ps"
  have inj: "inj_on fst (set ps)" and d: "distinct ps"
    using assms by (simp_all add: distinct_map)
  have "distinct (map fst (sort_key (\<lambda>p. decimal_value (fst p)) ?ix))"
    using d inj by (auto simp: distinct_map intro: inj_on_subset)
  moreover have "distinct (map fst ?st)"
    using assms by (rule distinct_map_filter)
  moreover have "set (map fst (sort_key (\<lambda>p. decimal_value (fst p)) ?ix)) \<inter> set (map fst ?st) = {}"
    by auto
  ultimately show ?thesis
    by (simp add: own_property_order_def)
qed

lemma subjectWise_result:
  "pt_subjectWise (getPerformanceTrends activities) =
     map (\<lambda>s. \<lparr>subject = s, averageScore = meanOfActivityMeans activities s\<rparr>)
       (map fst (own_property_order (subjectWise activities)))"
proof -
  have "map (\<lambda>(k, e). \<lparr>subject = sa_subject e, averageScore = totalScore e / real (count e)\<rparr>)
          (own_property_order (subjectWise activities)) =
        map (\<lambda>kv. \<lparr>subject = fst kv, averageScore = meanOfActivityMeans activities (fst kv)\<rparr>)
          (own_property_order (subjectWise activities))"
    by (rule map_cong)
       (auto dest: subjectWise_entry simp: meanOfActivityMeans_def own_property_order_set)
  then show ?thesis
    by (simp add: getPerformanceTrends_def comp_def)
qed

lemma subjectWise_result_subjects:
  "map subject (pt_subjectWise (getPerformanceTrends activities)) =
     map fst (own_property_order (subjectWise activities))"
  by (simp add: subjectWise_result comp_def)


section \<open>Claims about \<open>class.getPerformanceTrends\<close>\<close>

text \<open>
  C5 (as amended).  The subject-wise list has one entry for each subject of an activity
  whose name is not the name of a property that every object inherits (such as
  \<open>constructor\<close>).  The \<open>averageScore\<close> of such a subject is the mean, over the activities
  of the subject, of each activity's own average.  An activity's average is 0 for an
  activity without submissions and otherwise the mean over its submissions of the
  obtained marks (0 when \<open>null\<close>) divided by the total marks (1 when \<open>null\<close> or 0), times
  100.
\<close>

theorem getPerformanceTrends_subject_average:
  "distinct (map subject (pt_subjectWise (getPerformanceTrends activities))) \<and>
   set (map subject (pt_subjectWise (getPerformanceTrends activities))) =
     activitySubjects activities - set objectPrototypeKeys \<and>
   (\<forall>p \<in> set (pt_subjectWise (getPerformanceTrends activities)).
      averageScore p =
        sum_list (map activityMean (subjectActivities activities (subject p))) /
        real (length (subjectActivities activities (subject p)))) \<and>
   (\<forall>a \<in> set activities.
      activityAverage a =
        (if act_submissions a = [] then 0
         else sum_list (map submissionScore (act_submissions a)) /
              real (length (act_submissions a))) \<and>
      activityAverage a = activityMean a) \<and>
   (\<forall>m t. t \<noteq> 0 \<longrightarrow>
      submissionScore \<lparr>obtainedMarks = Some m, totalMarks = Some t\<rparr> = m / t * 100) \<and>
   (\<forall>m. submissionScore \<lparr>obtainedMarks = Some m, totalMarks = Some 0\<rparr> = m * 100 \<and>
        submissionScore \<lparr>obtainedMarks = Some m, totalMarks = None\<rparr> = m * 100) \<and>
   (\<forall>t. submissionScore \<lparr>obtainedMarks = None, totalMarks = t\<rparr> = 0)"
proof (intro conjI ballI allI impI)
  show "distinct (map subject (pt_subjectWise (getPerformanceTrends activities)))"
    unfolding subjectWise_result_subjects
    using subjectWise_keys(1) by (rule own_property_order_distinct_keys)
  show "set (map subject (pt_subjectWise (getPerformanceTrends activities))) =
     activitySubjects activities - set objectPrototypeKeys"
    unfolding subjectWise_result_subjects
    using subjectWise_keys(2) [of activities] by (simp add: own_property_order_set)
  show "averageScore p =
        sum_list (map activityMean (subjectActivities activities (subject p))) /
        real (length (subjectActivities activities (subject p)))"
    if "p \<in> set (pt_subjectWise (getPerformanceTrends activities))" for p
    using that by (auto simp: subjectWise_result meanOfActivityMeans_def)
  show "activityAverage a =
        (if act_submissions a = [] then 0
         else sum_list (map submissionScore (act_submissions a)) /
              real (length (act_submissions a)))" for a
    by (simp add: activityAverage_def reduce_sum_sum_list)
  show "activityAverage a = activityMean a" for a
    by (simp add: activityAverage_mean)
  show "submissionScore \<lparr>obtainedMarks = Some m, totalMarks = Some t\<rparr> = m / t * 100"
    if "t \<noteq> 0" for m t
    using that by (simp add: submissionScore_def num_or_def)
  show "submissionScore \<lparr>obtainedMarks = Some m, totalMarks = Some 0\<rparr> = m * 100" for m
    by (simp add: submissionScore_def num_or_def)
  show "submissionScore \<lparr>obtainedMarks = Some m, totalMarks = None\<rparr> = m * 100" for m
    by (simp add: submissionScore_def num_or_def)
  show "submissionScore \<lparr>obtainedMarks = None, totalMarks = t\<rparr> = 0" for t
    by (simp add: submissionScore_def num_or_def)
qed

theorem getPerformanceTrends_subject_average_witness:
  "\<lparr>subject = ''Mathematics'', averageScore = 60\<rparr>
     \<in> set (pt_subjectWise (getPerformanceTrends unevenActivities)) \<and>
   meanOfActivityMeans unevenActivities ''Mathematics'' = 60 \<and>
   submissionScore \<lparr>obtainedMarks = Some 40, totalMarks = Some 100\<rparr> = 40 \<and>
   submissionScore \<lparr>obtainedMarks = Some 5, totalMarks = Some 0\<rparr> = 500"
proof -
  let ?R = "pt_subjectWise (getPerformanceTrends unevenActivities)"
  have subj: "activitySubjects unevenActivities - set objectPrototypeKeys = {''Mathematics''}"
    by (simp add: activitySubjects_def unevenActivities_def objectPrototypeKeys_def)
  have m: "meanOfActivityMeans unevenActivities ''Mathematics'' = 60"
    by (simp add: meanOfActivityMeans_def subjectActivities_def unevenActivities_def
        activityMean_def percentage_def)
  note T = getPerformanceTrends_subject_average [of unevenActivities]
  have s: "set (map subject ?R) = activitySubjects unevenActivities - set objectPrototypeKeys"
    using T by (elim conjE)
  have a: "\<forall>p \<in> set ?R. averageScore p =
        sum_list (map activityMean (subjectActivities unevenActivities (subject p))) /
        real (length (subjectActivities unevenActivities (subject p)))"
    using T by (elim conjE)
  have sc: "\<forall>m t. t \<noteq> 0 \<longrightarrow>
      submissionScore \<lparr>obtainedMarks = Some m, totalMarks = Some t\<rparr> = m / t * 100"
    using T by (elim conjE)
  have sz: "\<forall>m. submissionScore \<lparr>obtainedMarks = Some m, totalMarks = Some 0\<rparr> = m * 100 \<and>
        submissionScore \<lparr>obtainedMarks = Some m, totalMarks = None\<rparr> = m * 100"
    using T by (elim conjE)
  have "''Mathematics'' \<in> set (map subject ?R)"
    unfolding s subj by (rule insertI1)
  then obtain p where p: "p \<in> set ?R" "subject p = ''Mathematics''"
    unfolding set_map by (elim imageE) (rule that, simp_all)
  from a p(1) have "averageScore p =
        sum_list (map activityMean (subjectActivities unevenActivities (subject p))) /
        real (length (subjectActivities unevenActivities (subject p)))"
    by (rule bspec)
  then have "averageScore p = 60"
    unfolding p(2) using m by (simp add: meanOfActivityMeans_def)
  with p(2) have eq: "p = \<lparr>subject = ''Mathematics'', averageScore = 60\<rparr>"
    by (cases p) simp
  have 1: "\<lparr>subject = ''Mathematics'', averageScore = 60\<rparr> \<in> set ?R"
    using p(1) unfolding eq .
  have 2: "submissionScore \<lparr>obtainedMarks = Some 40, totalMarks = Some 100\<rparr> = 40"
    using sc [rule_format, of 100 40] by simp
  have 3: "submissionScore \<lparr>obtainedMarks = Some 5, totalMarks = Some 0\<rparr> = 500"
    using sz [rule_format, of 5] by simp
  show ?thesis
    using 1 m 2 3 by (intro conjI)
qed

text \<open>
  C5 as it was stated takes the mean over all submissions of the subject.  For one
  activity with a single submission of 80 percent and another activity of the same
  subject with three submissions of 40 percent, that mean is 50; the handler returns 60.
\<close>

theorem getPerformanceTrends_not_mean_over_submissions:
  "pt_subjectWise (getPerformanceTrends unevenActivities) =
     [\<lparr>subject = ''Mathematics'', averageScore = 60\<rparr>] \<and>
   meanOverSubmissions unevenActivities ''Mathematics'' = 50"
  by (simp add: getPerformanceTrends_def unevenActivities_def subjectWise_def
      subjectWise_step_def Let_def plain_get_def objectPrototypeKeys_def dict_add_def
      activityAverage_def reduce_sum_def submissionScore_def num_or_def
      meanOverSubmissions_def subjectActivities_def own_property_order_def
      is_array_index_def is_digit_def percentage_def)

text \<open>
  Two runs of the handler: a subject named \<open>constructor\<close> gets no entry, and a submission
  with 5 marks of 0 scores 500; subjects named by array indices come first, in numeric
  order.
\<close>

lemma getPerformanceTrends_inherited_name:
  "pt_subjectWise (getPerformanceTrends constructorActivities) =
     [\<lparr>subject = ''Art'', averageScore = 500\<rparr>]"
  by (simp add: getPerformanceTrends_def constructorActivities_def subjectWise_def
      subjectWise_step_def Let_def plain_get_def objectPrototypeKeys_def dict_add_def
      own_property_order_def is_array_index_def is_digit_def decimal_value_def
      activityAverage_def reduce_sum_def submissionScore_def num_or_def)

lemma getPerformanceTrends_index_order:
  "map subject (pt_subjectWise (getPerformanceTrends numberedActivities)) =
     [''9'', ''10'', ''Art'']"
  by (simp add: getPerformanceTrends_def numberedActivities_def subjectWise_def
      subjectWise_step_def Let_def plain_get_def objectPrototypeKeys_def dict_add_def
      own_property_order_def is_array_index_def is_digit_def decimal_value_def
      activityAverage_def reduce_sum_def)


section \<open>Claims about \<open>class.searchClasses\<close>\<close>

lemma searchClasses_result:
  "db_fault d = None \<Longrightarrow>
   searchClasses d input =
     Inr (sort_key cls_name (filter (class_matches d (searchClasses_where input)) (db_classes d)))"
  by (simp add: searchClasses_def class_findMany_def)

lemma searchClasses_Inr:
  "searchClasses d input = Inr classes \<Longrightarrow>
   set classes = {c \<in> set (db_classes d). class_matches d (searchClasses_where input) c}"
  by (auto simp: searchClasses_def class_findMany_def split: option.splits)

lemma contains_insensitive_iff:
  "contains_insensitive name s \<longleftrightarrow>
     (\<exists>pre post. map to_lower name = pre @ map to_lower s @ post)"
  by (simp add: contains_insensitive_def sublist_def)

lemma noFilters_matches:
  "class_matches d (searchClasses_where noFilters) = (\<lambda>c. cls_status c = ACTIVE)"
  by (rule ext) (simp add: class_matches_def searchClasses_where_def noFilters_def when_truthy_def)

lemma search_only_matches:
  "class_matches d (searchClasses_where (noFilters\<lparr>in_search := Some s\<rparr>)) =
     (\<lambda>c. cls_status c = ACTIVE \<and> contains_insensitive (cls_name c) s)"
  by (rule ext) (auto simp add: class_matches_def searchClasses_where_def noFilters_def when_truthy_def
      truthy_def contains_insensitive_def)

text \<open>
  C6.  With no filter supplied the handler returns exactly the classes whose status is
  \<open>ACTIVE\<close>, ordered by name.  Whenever no status is supplied every returned class is
  \<open>ACTIVE\<close>, and whenever a search string is supplied the lower-cased name of every
  returned class contains the lower-cased search string as a contiguous part.
\<close>

theorem searchClasses_default_status_and_name_matching:
  "(db_fault d = None \<longrightarrow>
      searchClasses d noFilters =
        Inr (sort_key cls_name (filter (\<lambda>c. cls_status c = ACTIVE) (db_classes d)))) \<and>
   (db_fault d = None \<longrightarrow>
      searchClasses d (noFilters\<lparr>in_search := Some s\<rparr>) =
        Inr (sort_key cls_name
              (filter (\<lambda>c. cls_status c = ACTIVE \<and>
                            (\<exists>pre post. map to_lower (cls_name c) = pre @ map to_lower s @ post))
                 (db_classes d)))) \<and>
   (searchClasses d input = Inr classes \<longrightarrow>
      set classes \<subseteq> set (db_classes d) \<and>
      (in_status input = None \<longrightarrow> (\<forall>c \<in> set classes. cls_status c = ACTIVE)) \<and>
      (\<forall>q. in_search input = Some q \<longrightarrow>
         (\<forall>c \<in> set classes.
            \<exists>pre post. map to_lower (cls_name c) = pre @ map to_lower q @ post)))"
proof (intro conjI impI allI ballI)
  assume "db_fault d = None"
  then show "searchClasses d noFilters =
      Inr (sort_key cls_name (filter (\<lambda>c. cls_status c = ACTIVE) (db_classes d)))"
    by (simp add: searchClasses_result noFilters_matches)
next
  assume "db_fault d = None"
  then show "searchClasses d (noFilters\<lparr>in_search := Some s\<rparr>) =
      Inr (sort_key cls_name
            (filter (\<lambda>c. cls_status c = ACTIVE \<and>
                          (\<exists>pre post. map to_lower (cls_name c) = pre @ map to_lower s @ post))
               (db_classes d)))"
    by (simp add: searchClasses_result search_only_matches contains_insensitive_iff)
next
  assume r: "searchClasses d input = Inr classes"
  show "set classes \<subseteq> set (db_classes d)"
    using searchClasses_Inr [OF r] by auto
  show "cls_status c = ACTIVE" if "in_status input = None" "c \<in> set classes" for c
    using searchClasses_Inr [OF r] that
    by (auto simp: class_matches_def searchClasses_where_def)
  show "\<exists>pre post. map to_lower (cls_name c) = pre @ map to_lower q @ post"
    if "in_search input = Some q" "c \<in> set classes" for q c
  proof (cases "truthy q")
    case True
    with searchClasses_Inr [OF r] that have "contains_insensitive (cls_name c) q"
      by (auto simp: class_matches_def searchClasses_where_def when_truthy_def)
    then show ?thesis by (simp add: contains_insensitive_iff)
  next
    case False
    then have "q = []" by (simp add: truthy_def)
    then have "contains_insensitive (cls_name c) q"
      by (simp add: contains_insensitive_def)
    then show ?thesis by (simp add: contains_insensitive_iff)
  qed
qed

theorem searchClasses_default_status_and_name_matching_witness:
  "db_fault schoolDb = None \<and>
   searchClasses schoolDb noFilters = Inr [algebraClass, chemistryClass, linearAlgebraClass] \<and>
   searchClasses schoolDb (noFilters\<lparr>in_search := Some ''aLGe''\<rparr>) =
     Inr [algebraClass, linearAlgebraClass]"
proof -
  have f: "db_fault schoolDb = None"
    by (simp add: schoolDb_def)
  note T = searchClasses_default_status_and_name_matching
    [where d = schoolDb and s = "''aLGe''" and input = noFilters and classes = "[]"]
  have 1: "searchClasses schoolDb noFilters =
      Inr (sort_key cls_name (filter (\<lambda>c. cls_status c = ACTIVE) (db_classes schoolDb)))"
    using T f by (elim conjE) (erule (1) impE)
  have 2: "searchClasses schoolDb (noFilters\<lparr>in_search := Some ''aLGe''\<rparr>) =
        Inr (sort_key cls_name
              (filter (\<lambda>c. cls_status c = ACTIVE \<and> contains_insensitive (cls_name c) ''aLGe'')
                 (db_classes schoolDb)))"
    using T f unfolding contains_insensitive_iff by (elim conjE) (erule (1) impE)
  have 3: "sort_key cls_name (filter (\<lambda>c. cls_status c = ACTIVE) (db_classes schoolDb)) =
      [algebraClass, chemistryClass, linearAlgebraClass]"
    by (simp add: schoolDb_def linearAlgebraClass_def chemistryClass_def algebraClass_def
        physicsClass_def)
  have 4: "sort_key cls_name
              (filter (\<lambda>c. cls_status c = ACTIVE \<and> contains_insensitive (cls_name c) ''aLGe'')
                 (db_classes schoolDb)) = [algebraClass, linearAlgebraClass]"
    by (simp add: schoolDb_def linearAlgebraClass_def chemistryClass_def algebraClass_def
        physicsClass_def contains_insensitive_def to_lower_def sublist_code)
  show ?thesis
    using f 1 2 unfolding 3 4 by (intro conjI)
qed


section \<open>Claims about \<open>class.deleteClass\<close>\<close>

lemma find_None_image: "find (\<lambda>c. f c = i) xs = None \<longleftrightarrow> i \<notin> f ` set xs"
  by (auto simp: find_None_iff)

text \<open>
  C7.  Deleting an identifier that no class record carries does not return a class: the
  store's failure reaches the caller as it is (the not-found failure \<open>P2025\<close> of a working
  store), and the store is unchanged.
\<close>

theorem deleteClass_missing_id:
  "i \<notin> cls_id ` set (db_classes d) \<Longrightarrow>
   deleteClass d i =
     (Inl (case db_fault d of None \<Rightarrow> PrismaError ''P2025'' | Some e \<Rightarrow> e), d)"
  by (simp add: deleteClass_def class_delete_def find_None_image [symmetric]
      split: option.splits)

theorem deleteClass_missing_id_witness:
  "''cls_9'' \<notin> cls_id ` set (db_classes schoolDb) \<and>
   deleteClass schoolDb ''cls_9'' = (Inl (PrismaError ''P2025''), schoolDb)"
proof -
  have h: "''cls_9'' \<notin> cls_id ` set (db_classes schoolDb)"
    by (simp add: schoolDb_def linearAlgebraClass_def chemistryClass_def algebraClass_def
        physicsClass_def)
  have f: "db_fault schoolDb = None"
    by (simp add: schoolDb_def)
  from deleteClass_missing_id [OF h] f h show ?thesis
    by simp
qed


section \<open>Claims about \<open>class.createClass\<close>\<close>

lemma createClass_Inr:
  assumes "createClass d newId input = (Inr row, d')"
  shows "\<exists>tps. row = \<lparr>cls_id = newId, cls_name = ci_name input,
                        cls_classGroupId = ci_classGroupId input,
                        cls_campusId = ci_campusId input,
                        cls_buildingId = when_truthy (ci_buildingId input),
                        cls_roomId = when_truthy (ci_roomId input),
                        cls_capacity = ci_capacity input, cls_status = ci_status input,
                        cls_description = ci_description input,
                        cls_teachers = d_teachers_createMany (createClass_data input tps)\<rparr>"
    and "db_classes d' = db_classes d @ [row]"
  using assms
  by (auto simp: createClass_def class_create_def teacherProfile_findMany_userId_in_def
      createClass_data_def Let_def split: option.splits if_splits)

lemma when_truthy_Some: "b \<noteq> [] \<Longrightarrow> when_truthy (Some b) = Some b"
  by (simp add: when_truthy_def truthy_def)

lemma when_truthy_None: "x = None \<or> x = Some [] \<Longrightarrow> when_truthy x = None"
  by (auto simp: when_truthy_def truthy_def)

text \<open>
  C9 (as amended).  A class that \<open>class.createClass\<close> creates is connected to the supplied
  class group and campus, to the supplied building and room where these are present and
  not the empty string, and to no building or room where they are omitted or the empty
  string.
\<close>

theorem createClass_relations:
  "createClass d newId input = (Inr row, d') \<longrightarrow>
     cls_classGroupId row = ci_classGroupId input \<and>
     cls_campusId row = ci_campusId input \<and>
     (\<forall>b. ci_buildingId input = Some b \<and> b \<noteq> [] \<longrightarrow> cls_buildingId row = Some b) \<and>
     (ci_buildingId input = None \<or> ci_buildingId input = Some [] \<longrightarrow> cls_buildingId row = None) \<and>
     (\<forall>r. ci_roomId input = Some r \<and> r \<noteq> [] \<longrightarrow> cls_roomId row = Some r) \<and>
     (ci_roomId input = None \<or> ci_roomId input = Some [] \<longrightarrow> cls_roomId row = None) \<and>
     db_classes d' = db_classes d @ [row]"
proof
  assume a: "createClass d newId input = (Inr row, d')"
  from createClass_Inr(1) [OF a] have
    "cls_classGroupId row = ci_classGroupId input"
    "cls_campusId row = ci_campusId input"
    "cls_buildingId row = when_truthy (ci_buildingId input)"
    "cls_roomId row = when_truthy (ci_roomId input)"
    by auto
  then show "cls_classGroupId row = ci_classGroupId input \<and>
     cls_campusId row = ci_campusId input \<and>
     (\<forall>b. ci_buildingId input = Some b \<and> b \<noteq> [] \<longrightarrow> cls_buildingId row = Some b) \<and>
     (ci_buildingId input = None \<or> ci_buildingId input = Some [] \<longrightarrow> cls_buildingId row = None) \<and>
     (\<forall>r. ci_roomId input = Some r \<and> r \<noteq> [] \<longrightarrow> cls_roomId row = Some r) \<and>
     (ci_roomId input = None \<or> ci_roomId input = Some [] \<longrightarrow> cls_roomId row = None) \<and>
     db_classes d' = db_classes d @ [row]"
    using createClass_Inr(2) [OF a]
    by (auto simp: when_truthy_Some when_truthy_None)
qed

lemma labCreate:
  "\<exists>row d'. createClass schoolDb ''cls_5'' labInput = (Inr row, d')"
  by (simp add: createClass_def class_create_def teacherProfile_findMany_userId_in_def
      schoolDb_def labInput_def Let_def linearAlgebraClass_def chemistryClass_def
      algebraClass_def physicsClass_def createClass_data_def when_truthy_def truthy_def)

theorem createClass_relations_witness:
  "classCreateSchema labInput \<and>
   (\<exists>row d'. createClass schoolDb ''cls_5'' labInput = (Inr row, d') \<and>
      cls_classGroupId row = ''cg_1'' \<and> cls_campusId row = ''campus_1'' \<and>
      cls_buildingId row = Some ''bld_1'' \<and> cls_roomId row = None)"
proof -
  have v: "classCreateSchema labInput"
    by (simp add: classCreateSchema_def labInput_def)
  obtain row d' where c: "createClass schoolDb ''cls_5'' labInput = (Inr row, d')"
    using labCreate by blast
  have i: "ci_classGroupId labInput = ''cg_1''" "ci_campusId labInput = ''campus_1''"
    "ci_buildingId labInput = Some ''bld_1''" "ci_roomId labInput = None"
    by (simp_all add: labInput_def)
  from createClass_relations [of schoolDb "''cls_5''" labInput row d'] c i
  have "cls_classGroupId row = ''cg_1'' \<and> cls_campusId row = ''campus_1'' \<and>
      cls_buildingId row = Some ''bld_1'' \<and> cls_roomId row = None"
    by simp
  with v c show ?thesis by blast
qed

text \<open>
  C9 as it was stated connects the class to every supplied building identifier.  The
  schema accepts the empty string as \<open>buildingId\<close>; the handler then connects no building.
\<close>

theorem createClass_empty_buildingId_not_connected:
  "classCreateSchema emptyBuildingInput \<and>
   ci_buildingId emptyBuildingInput = Some [] \<and>
   map_sum (\<lambda>e. e) cls_buildingId (fst (createClass schoolDb ''cls_5'' emptyBuildingInput)) =
     Inr None"
  by (simp add: createClass_def class_create_def teacherProfile_findMany_userId_in_def
      schoolDb_def labInput_def emptyBuildingInput_def Let_def linearAlgebraClass_def
      chemistryClass_def algebraClass_def physicsClass_def createClass_data_def
      when_truthy_def truthy_def classCreateSchema_def)


section \<open>Claims about \<open>class.getGradebook\<close>\<close>

lemma academicTerm_with_relations:
  "academicTerm_with d gradeBookRelations =
     (\<lambda>t. \<lparr>at_id = atr_id t,
            at_assessmentPeriods =
              Some (filter (\<lambda>p. apr_termId p = atr_id t) (db_assessmentPeriods d))\<rparr>)"
  by (rule ext) (simp add: academicTerm_with_def gradeBookRelations_def)

lemma termStructure_with_relations:
  "termStructure_with d gradeBookRelations =
     (\<lambda>s. \<lparr>ts_id = tsr_id s,
            ts_academicTerms =
              Some (map (\<lambda>t. \<lparr>at_id = atr_id t,
                               at_assessmentPeriods =
                                 Some (filter (\<lambda>p. apr_termId p = atr_id t)
                                         (db_assessmentPeriods d))\<rparr>)
                      (filter (\<lambda>t. atr_termStructureId t = tsr_id s) (db_academicTerms d)))\<rparr>)"
  by (rule ext)
     (simp add: termStructure_with_def academicTerm_with_relations, simp add: gradeBookRelations_def)

lemma subjectRecord_with_relations:
  "subjectRecord_with d gradeBookRelations =
     (\<lambda>r. \<lparr>sr_id = srr_id r,
            sr_subject = find (\<lambda>s. sub_id s = srr_subjectId r) (db_subjects d)\<rparr>)"
  by (rule ext) (simp add: subjectRecord_with_def gradeBookRelations_def)

lemma gradeBook_with_relations:
  "gradeBook_with d gradeBookRelations g =
     \<lparr>gb_id = gbr_id g, gb_classId = gbr_classId g,
      gb_assessmentSystem =
        find (\<lambda>a. as_id a = gbr_assessmentSystemId g) (db_assessmentSystems d),
      gb_termStructure =
        map_option
          (\<lambda>s. \<lparr>ts_id = tsr_id s,
                 ts_academicTerms =
                   Some (map (\<lambda>t. \<lparr>at_id = atr_id t,
                                    at_assessmentPeriods =
                                      Some (filter (\<lambda>p. apr_termId p = atr_id t)
                                              (db_assessmentPeriods d))\<rparr>)
                           (filter (\<lambda>t. atr_termStructureId t = tsr_id s)
                              (db_academicTerms d)))\<rparr>)
          (find (\<lambda>s. tsr_id s = gbr_termStructureId g) (db_termStructures d)),
      gb_subjectRecords =
        Some (map (\<lambda>r. \<lparr>sr_id = srr_id r,
                         sr_subject = find (\<lambda>s. sub_id s = srr_subjectId r) (db_subjects d)\<rparr>)
                (filter (\<lambda>r. srr_gradeBookId r = gbr_id g) (db_subjectRecords d)))\<rparr>"
  by (simp add: gradeBook_with_def termStructure_with_relations subjectRecord_with_relations,
      simp add: gradeBookRelations_def)

lemma find_classId: "find (\<lambda>g. gbr_classId g = classId) gs = Some g \<Longrightarrow> gbr_classId g = classId"
  by (auto simp: find_Some_iff)

lemma gradeBook_findUnique_found:
  "db_fault d = None \<Longrightarrow> find (\<lambda>g. gbr_classId g = classId) (db_gradeBooks d) = Some g \<Longrightarrow>
   gradeBook_findUnique d classId inc = Inr (Some (gradeBook_with d inc g))"
  unfolding gradeBook_findUnique_def by simp

lemma gradeBook_findUnique_none:
  "db_fault d = None \<Longrightarrow> find (\<lambda>g. gbr_classId g = classId) (db_gradeBooks d) = None \<Longrightarrow>
   gradeBook_findUnique d classId inc = Inr None"
  by (simp add: gradeBook_findUnique_def)

lemma gradeBook_findUnique_fault:
  "db_fault d = Some e \<Longrightarrow> gradeBook_findUnique d classId inc = Inl e"
  by (simp add: gradeBook_findUnique_def)

text \<open>
  C1.  Where the store holds no gradebook for the class, the handler calls the
  initialization routine exactly once, for that class.  When the routine has completed,
  the handler reads the gradebook again from the store the routine left.  A gradebook
  found there is returned by the same call, and the returned object carries the
  gradebook's assessment system, its term structure with the academic terms and their
  assessment periods, and its subject records with their subjects, as that store holds
  them.  If none is found, the error \<open>NOT_FOUND\<close> is thrown.  The statement also gives
  the calls in which the second read or the routine throws: a \<open>TRPCError\<close> is thrown on as
  it is, any other error is thrown as the cause of an \<open>INTERNAL_SERVER_ERROR\<close>, and after
  a routine that throws nothing is read again.
\<close>

theorem getGradebook_absent:
  "gradeBook_findUnique d classId gradeBookRelations = Inr None \<longrightarrow>
     initializations (snd (snd (getGradebook init d classId))) = [classId] \<and>
     (\<forall>d1. init classId d = (Inr (), d1) \<longrightarrow>
        snd (getGradebook init d classId) =
          (d1, [GradeBookFindUnique classId, InitializeGradeBook classId,
                GradeBookFindUnique classId]) \<and>
        (\<forall>g. db_fault d1 = None \<and>
              find (\<lambda>g. gbr_classId g = classId) (db_gradeBooks d1) = Some g \<longrightarrow>
           fst (getGradebook init d classId) =
             Inr \<lparr>gb_id = gbr_id g, gb_classId = classId,
                  gb_assessmentSystem =
                    find (\<lambda>a. as_id a = gbr_assessmentSystemId g) (db_assessmentSystems d1),
                  gb_termStructure =
                    map_option
                      (\<lambda>s. \<lparr>ts_id = tsr_id s,
                             ts_academicTerms =
                               Some (map (\<lambda>t. \<lparr>at_id = atr_id t,
                                                at_assessmentPeriods =
                                                  Some (filter (\<lambda>p. apr_termId p = atr_id t)
                                                          (db_assessmentPeriods d1))\<rparr>)
                                       (filter (\<lambda>t. atr_termStructureId t = tsr_id s)
                                          (db_academicTerms d1)))\<rparr>)
                      (find (\<lambda>s. tsr_id s = gbr_termStructureId g) (db_termStructures d1)),
                  gb_subjectRecords =
                    Some (map (\<lambda>r. \<lparr>sr_id = srr_id r,
                                     sr_subject =
                                       find (\<lambda>s. sub_id s = srr_subjectId r) (db_subjects d1)\<rparr>)
                            (filter (\<lambda>r. srr_gradeBookId r = gbr_id g)
                               (db_subjectRecords d1)))\<rparr>) \<and>
        (db_fault d1 = None \<and>
         find (\<lambda>g. gbr_classId g = classId) (db_gradeBooks d1) = None \<longrightarrow>
           fst (getGradebook init d classId) =
             Inl (TRPCError NOT_FOUND ''Failed to initialize gradebook'' None)) \<and>
        (\<forall>c m cause. db_fault d1 = Some (TRPCError c m cause) \<longrightarrow>
           fst (getGradebook init d classId) = Inl (TRPCError c m cause)) \<and>
        (\<forall>e m. db_fault d1 = Some e \<and> (e = PrismaError m \<or> e = OtherError m) \<longrightarrow>
           fst (getGradebook init d classId) =
             Inl (TRPCError INTERNAL_SERVER_ERROR ''Failed to fetch gradebook'' (Some e)))) \<and>
     (\<forall>e d1. init classId d = (Inl e, d1) \<longrightarrow>
        snd (getGradebook init d classId) =
          (d1, [GradeBookFindUnique classId, InitializeGradeBook classId]) \<and>
        (\<forall>c m cause. e = TRPCError c m cause \<longrightarrow>
           fst (getGradebook init d classId) = Inl (TRPCError c m cause)) \<and>
        (\<forall>m. e = PrismaError m \<or> e = OtherError m \<longrightarrow>
           fst (getGradebook init d classId) =
             Inl (TRPCError INTERNAL_SERVER_ERROR ''Failed to fetch gradebook'' (Some e))))"
proof (intro impI conjI allI)
  assume absent: "gradeBook_findUnique d classId gradeBookRelations = Inr None"
  show "initializations (snd (snd (getGradebook init d classId))) = [classId]"
    using absent
    by (cases "init classId d")
       (auto simp: getGradebook_def split: sum.splits option.splits)
  show "snd (getGradebook init d classId) =
          (d1, [GradeBookFindUnique classId, InitializeGradeBook classId,
                GradeBookFindUnique classId])"
    if "init classId d = (Inr (), d1)" for d1
    using absent that by (auto simp: getGradebook_def split: sum.splits option.splits)
  show "fst (getGradebook init d classId) =
             Inr \<lparr>gb_id = gbr_id g, gb_classId = classId,
                  gb_assessmentSystem =
                    find (\<lambda>a. as_id a = gbr_assessmentSystemId g) (db_assessmentSystems d1),
                  gb_termStructure =
                    map_option
                      (\<lambda>s. \<lparr>ts_id = tsr_id s,
                             ts_academicTerms =
                               Some (map (\<lambda>t. \<lparr>at_id = atr_id t,
                                                at_assessmentPeriods =
                                                  Some (filter (\<lambda>p. apr_termId p = atr_id t)
                                                          (db_assessmentPeriods d1))\<rparr>)
                                       (filter (\<lambda>t. atr_termStructureId t = tsr_id s)
                                          (db_academicTerms d1)))\<rparr>)
                      (find (\<lambda>s. tsr_id s = gbr_termStructureId g) (db_termStructures d1)),
                  gb_subjectRecords =
                    Some (map (\<lambda>r. \<lparr>sr_id = srr_id r,
                                     sr_subject =
                                       find (\<lambda>s. sub_id s = srr_subjectId r) (db_subjects d1)\<rparr>)
                            (filter (\<lambda>r. srr_gradeBookId r = gbr_id g)
                               (db_subjectRecords d1)))\<rparr>"
    if i: "init classId d = (Inr (), d1)"
      and f: "db_fault d1 = None \<and>
              find (\<lambda>g. gbr_classId g = classId) (db_gradeBooks d1) = Some g" for d1 g
  proof -
    from f have r: "gradeBook_findUnique d1 classId gradeBookRelations =
        Inr (Some (gradeBook_with d1 gradeBookRelations g))"
      by (intro gradeBook_findUnique_found) (erule conjunct1, erule conjunct2)
    from f have c: "gbr_classId g = classId"
      by (intro find_classId) (erule conjunct2)
    have "fst (getGradebook init d classId) = Inr (gradeBook_with d1 gradeBookRelations g)"
      using absent i r by (simp add: getGradebook_def)
    then show ?thesis
      by (simp only: gradeBook_with_relations c)
  qed
  show "fst (getGradebook init d classId) =
             Inl (TRPCError NOT_FOUND ''Failed to initialize gradebook'' None)"
    if "init classId d = (Inr (), d1)"
      and "db_fault d1 = None \<and>
         find (\<lambda>g. gbr_classId g = classId) (db_gradeBooks d1) = None" for d1
    using absent that
    by (simp add: getGradebook_def getGradebook_catch_def gradeBook_findUnique_none)
  show "fst (getGradebook init d classId) = Inl (TRPCError c m cause)"
    if "init classId d = (Inr (), d1)" and "db_fault d1 = Some (TRPCError c m cause)"
    for d1 c m cause
    using absent that
    by (simp add: getGradebook_def getGradebook_catch_def gradeBook_findUnique_fault)
  show "fst (getGradebook init d classId) =
             Inl (TRPCError INTERNAL_SERVER_ERROR ''Failed to fetch gradebook'' (Some e))"
    if "init classId d = (Inr (), d1)"
      and "db_fault d1 = Some e \<and> (e = PrismaError m \<or> e = OtherError m)" for d1 e m
    using absent that
    by (auto simp add: getGradebook_def getGradebook_catch_def gradeBook_findUnique_fault)
  show "snd (getGradebook init d classId) =
          (d1, [GradeBookFindUnique classId, InitializeGradeBook classId])"
    if "init classId d = (Inl e, d1)" for e d1
    using absent that by (simp add: getGradebook_def)
  show "fst (getGradebook init d classId) = Inl (TRPCError c m cause)"
    if "init classId d = (Inl e, d1)" and "e = TRPCError c m cause" for e d1 c m cause
    using absent that by (simp add: getGradebook_def getGradebook_catch_def)
  show "fst (getGradebook init d classId) =
             Inl (TRPCError INTERNAL_SERVER_ERROR ''Failed to fetch gradebook'' (Some e))"
    if "init classId d = (Inl e, d1)" and "e = PrismaError m \<or> e = OtherError m" for e d1 m
    using absent that by (auto simp add: getGradebook_def getGradebook_catch_def)
qed


theorem getGradebook_absent_witness:
  "gradeBook_findUnique schoolDb ''cls_1'' gradeBookRelations = Inr None \<and>
   initializations (snd (snd (getGradebook (createsGradeBook firstPlan) schoolDb ''cls_1'')))
     = [''cls_1''] \<and>
   fst (getGradebook (createsGradeBook firstPlan) schoolDb ''cls_1'') = Inr firstGradeBook"
proof -
  define d1 where "d1 = snd (createsGradeBook firstPlan ''cls_1'' schoolDb)"
  define g where "g = (plan_gradeBook firstPlan)\<lparr>gbr_classId := ''cls_1''\<rparr>"
  have absent: "gradeBook_findUnique schoolDb ''cls_1'' gradeBookRelations = Inr None"
    by (simp add: gradeBook_findUnique_def schoolDb_def)
  have i: "createsGradeBook firstPlan ''cls_1'' schoolDb = (Inr (), d1)"
    by (simp add: d1_def createsGradeBook_def schoolDb_def)
  have f: "db_fault d1 = None \<and>
      find (\<lambda>g. gbr_classId g = ''cls_1'') (db_gradeBooks d1) = Some g"
    by (simp add: d1_def g_def createsGradeBook_def schoolDb_def firstPlan_def)
  note T = getGradebook_absent [of schoolDb "''cls_1''" "createsGradeBook firstPlan",
      rule_format, OF absent]
  have 1: "initializations
      (snd (snd (getGradebook (createsGradeBook firstPlan) schoolDb ''cls_1''))) = [''cls_1'']"
    using T by (elim conjE)
  have "fst (getGradebook (createsGradeBook firstPlan) schoolDb ''cls_1'') =
      Inr (gradeBook_with d1 gradeBookRelations g)"
    using T [THEN conjunct2, THEN conjunct1, rule_format, OF i, THEN conjunct2,
        THEN conjunct1, rule_format, OF f]
    by (simp add: gradeBook_with_relations g_def firstPlan_def)
  also have "gradeBook_with d1 gradeBookRelations g = firstGradeBook"
    by (simp add: gradeBook_with_relations d1_def g_def createsGradeBook_def schoolDb_def
        firstPlan_def firstGradeBook_def)
  finally show ?thesis
    using absent 1 by (intro conjI)
qed

text \<open>
  Runs of the handler with the other routines, and with a gradebook already present.
\<close>

lemma getGradebook_storesNothing:
  "fst (getGradebook storesNothing schoolDb ''cls_9'') =
     Inl (TRPCError NOT_FOUND ''Failed to initialize gradebook'' None)"
  by (simp add: getGradebook_def gradeBook_findUnique_def schoolDb_def storesNothing_def
      getGradebook_catch_def)

lemma getGradebook_routine_throws:
  "getGradebook (throwsError (OtherError ''Class not found'')) schoolDb ''cls_9'' =
     (Inl (TRPCError INTERNAL_SERVER_ERROR ''Failed to fetch gradebook''
            (Some (OtherError ''Class not found''))),
      schoolDb,
      [GradeBookFindUnique ''cls_9'', InitializeGradeBook ''cls_9''])"
  by (simp add: getGradebook_def gradeBook_findUnique_def schoolDb_def throwsError_def
      getGradebook_catch_def)

lemma getGradebook_routine_throws_TRPCError:
  "fst (getGradebook (throwsError (TRPCError UNAUTHORIZED ''No access'' None)) schoolDb ''cls_9'') =
     Inl (TRPCError UNAUTHORIZED ''No access'' None)"
  by (simp add: getGradebook_def gradeBook_findUnique_def schoolDb_def throwsError_def
      getGradebook_catch_def)

lemma getGradebook_present:
  "gradeBook_findUnique d classId gradeBookRelations = Inr (Some g) \<Longrightarrow>
   getGradebook init d classId = (Inr g, d, [GradeBookFindUnique classId])"
  by (simp add: getGradebook_def)


section \<open>Claims about \<open>class.getTeacherClasses\<close> and \<open>class.list\<close>\<close>

text \<open>
  C10.  With a session that carries no user id (no session, no user, no id or an empty
  id) \<open>getTeacherClasses\<close> returns the empty array.  With no session at all, \<open>list\<close> throws
  \<open>UNAUTHORIZED\<close> where \<open>getTeacherClasses\<close> returns the empty array.
\<close>

theorem getTeacherClasses_without_user_id:
  "(session_user_id c = None \<or> session_user_id c = Some [] \<longrightarrow> getTeacherClasses c = Inr []) \<and>
   (ctx_session c = None \<longrightarrow>
      getTeacherClasses c = Inr [] \<and>
      list_classes c =
        Inl (TRPCError UNAUTHORIZED ''You must be logged in to access this resource'' None))"
  by (auto simp: getTeacherClasses_def list_classes_def session_user_id_def when_truthy_def
      truthy_def)

theorem getTeacherClasses_without_user_id_witness:
  "ctx_session \<lparr>ctx_session = None, ctx_prisma = schoolDb\<rparr> = None \<and>
   getTeacherClasses \<lparr>ctx_session = None, ctx_prisma = schoolDb\<rparr> = Inr [] \<and>
   list_classes \<lparr>ctx_session = None, ctx_prisma = schoolDb\<rparr> =
     Inl (TRPCError UNAUTHORIZED ''You must be logged in to access this resource'' None) \<and>
   getTeacherClasses \<lparr>ctx_session = Some \<lparr>s_user = Some \<lparr>su_id = None\<rparr>\<rparr>,
                       ctx_prisma = schoolDb\<rparr> = Inr []"
proof -
  have a: "ctx_session \<lparr>ctx_session = None, ctx_prisma = schoolDb\<rparr> = None"
    by simp
  have b: "session_user_id \<lparr>ctx_session = Some \<lparr>s_user = Some \<lparr>su_id = None\<rparr>\<rparr>,
                       ctx_prisma = schoolDb\<rparr> = None"
    by (simp add: session_user_id_def)
  from getTeacherClasses_without_user_id [of "\<lparr>ctx_session = None, ctx_prisma = schoolDb\<rparr>"] a
    getTeacherClasses_without_user_id [of "\<lparr>ctx_session = Some \<lparr>s_user = Some \<lparr>su_id = None\<rparr>\<rparr>,
                       ctx_prisma = schoolDb\<rparr>"] b
  show ?thesis by blast
qed

lemma getTeacherClasses_of_user_1:
  "getTeacherClasses \<lparr>ctx_session = Some \<lparr>s_user = Some \<lparr>su_id = Some ''user_1''\<rparr>\<rparr>,
                       ctx_prisma = schoolDb\<rparr> = Inr [algebraClass]"
  by (simp add: getTeacherClasses_def session_user_id_def when_truthy_def truthy_def class_findMany_def
    schoolDb_def noConditions_def class_matches_def linearAlgebraClass_def chemistryClass_def
        algebraClass_def physicsClass_def)


section \<open>Claims about the teacher edit page\<close>

text \<open>
  C8 (as amended).  For an existing teacher without a profile both variants of the page
  render the form.  The second variant hands it the empty string for the specialization,
  \<open>CLASS\<close> for the teacher type, empty arrays for the campus, subject and class
  identifiers, and the teacher's own name, email and phone number, with the empty string
  in place of a \<open>null\<close> one.  The first variant hands it the teacher as loaded, with
  \<open>undefined\<close> for the profile and for a \<open>null\<close> name, email or phone number.
\<close>

theorem EditTeacherPage_without_profile:
  "truthy params_id \<and> t_teacherProfile teacher = None \<longrightarrow>
     EditTeacherPage_second params_id (Inr (Some teacher, subjects, classes)) =
       EditTeacherForm params_id
         \<lparr>fd_name = (case t_name teacher of None \<Rightarrow> [] | Some n \<Rightarrow> n),
          fd_email = (case t_email teacher of None \<Rightarrow> [] | Some n \<Rightarrow> n),
          fd_phoneNumber = (case t_phoneNumber teacher of None \<Rightarrow> [] | Some n \<Rightarrow> n),
          fd_teacherType = CLASS, fd_specialization = [],
          fd_campusIds = [], fd_subjectIds = [], fd_classIds = []\<rparr>
         subjects classes \<and>
     EditTeacherPage_first params_id (Inr (Some teacher, subjects, classes)) =
       EditTeacherForm params_id
         \<lparr>st_id = t_id teacher, st_name = t_name teacher, st_email = t_email teacher,
          st_phoneNumber = t_phoneNumber teacher, st_status = t_status teacher,
          st_teacherProfile = None\<rparr>
         subjects classes"
  by (auto simp: EditTeacherPage_second_def EditTeacherPage_first_def
      sanitizedTeacher_second_def sanitizedTeacher_first_def str_or_def truthy_def
      split: option.splits)

theorem EditTeacherPage_without_profile_witness:
  "truthy ''user_7'' \<and> t_teacherProfile unnamedTeacher = None \<and>
   EditTeacherPage_second ''user_7'' (Inr (Some unnamedTeacher, [], [])) =
     EditTeacherForm ''user_7''
       \<lparr>fd_name = [], fd_email = [], fd_phoneNumber = [], fd_teacherType = CLASS,
        fd_specialization = [], fd_campusIds = [], fd_subjectIds = [], fd_classIds = []\<rparr>
       [] []"
proof -
  have h: "truthy ''user_7'' \<and> t_teacherProfile unnamedTeacher = None"
    by (simp add: truthy_def unnamedTeacher_def)
  have n: "t_name unnamedTeacher = None" "t_email unnamedTeacher = None"
    "t_phoneNumber unnamedTeacher = None"
    by (simp_all add: unnamedTeacher_def)
  from EditTeacherPage_without_profile [of "''user_7''" unnamedTeacher "[]" "[]"] h
  show ?thesis by (simp add: n)
qed

text \<open>
  C8 as it was stated has the form receive empty strings for name, email and phone
  number.  The second variant passes a teacher's name and email on, and the first
  variant passes \<open>undefined\<close> values and no arrays.
\<close>

theorem EditTeacherPage_values_are_not_all_defaults:
  "t_teacherProfile namedTeacher = None \<and>
   EditTeacherPage_second ''user_8'' (Inr (Some namedTeacher, [], [])) =
     EditTeacherForm ''user_8''
       \<lparr>fd_name = ''Ada'', fd_email = ''ada@school.example'', fd_phoneNumber = [],
        fd_teacherType = CLASS, fd_specialization = [], fd_campusIds = [],
        fd_subjectIds = [], fd_classIds = []\<rparr>
       [] [] \<and>
   t_teacherProfile unnamedTeacher = None \<and>
   EditTeacherPage_first ''user_7'' (Inr (Some unnamedTeacher, [], [])) =
     EditTeacherForm ''user_7''
       \<lparr>st_id = ''user_7'', st_name = None, st_email = None, st_phoneNumber = None,
        st_status = ACTIVE, st_teacherProfile = None\<rparr>
       [] []"
  by (simp add: EditTeacherPage_second_def EditTeacherPage_first_def
      sanitizedTeacher_second_def sanitizedTeacher_first_def str_or_def truthy_def
      namedTeacher_def unnamedTeacher_def)

end
